theory Spec2Isabelle
  imports Main "HOL-Library.Sublist" "HOL-Library.AList"
begin

section \<open>Path strings (\<^verbatim>\<open>os.path\<close> on POSIX)\<close>

text \<open>
  \<^verbatim>\<open>md2pdf.py\<close> manipulates paths as strings through \<^verbatim>\<open>os.path\<close>. The functions below follow
  \<^verbatim>\<open>posixpath.py\<close> line by line; the separator is \<open>/\<close>.
\<close>

definition rstrip_sep :: "string \<Rightarrow> string" where
  \<comment> \<open>\<^verbatim>\<open>s.rstrip('/')\<close>\<close>
  "rstrip_sep s = rev (dropWhile (\<lambda>c. c = CHR ''/'') (rev s))"

definition all_sep :: "string \<Rightarrow> bool" where
  \<comment> \<open>\<^verbatim>\<open>s == '/' * len(s)\<close>\<close>
  "all_sep s = list_all (\<lambda>c. c = CHR ''/'') s"

definition path_head :: "string \<Rightarrow> string" where
  \<comment> \<open>\<^verbatim>\<open>p[:p.rfind('/') + 1]\<close>\<close>
  "path_head p = rev (dropWhile (\<lambda>c. c \<noteq> CHR ''/'') (rev p))"

definition basename :: "string \<Rightarrow> string" where
  \<comment> \<open>\<^verbatim>\<open>p[p.rfind('/') + 1:]\<close>\<close>
  "basename p = rev (takeWhile (\<lambda>c. c \<noteq> CHR ''/'') (rev p))"

definition dirname :: "string \<Rightarrow> string" where
  "dirname p =
     (let head = path_head p
      in if head \<noteq> [] \<and> \<not> all_sep head then rstrip_sep head else head)"

definition path_join :: "string \<Rightarrow> string \<Rightarrow> string" where
  \<comment> \<open>\<^verbatim>\<open>os.path.join(a, b)\<close>: an absolute \<open>b\<close> discards \<open>a\<close>\<close>
  "path_join a b =
     (if prefix ''/'' b then b
      else if a = [] \<or> last a = CHR ''/'' then a @ b
      else a @ ''/'' @ b)"

fun split_sep :: "string \<Rightarrow> string list" where
  \<comment> \<open>\<^verbatim>\<open>s.split('/')\<close>\<close>
  "split_sep [] = [[]]"
| "split_sep (c # cs) =
     (if c = CHR ''/'' then [] # split_sep cs
      else (case split_sep cs of [] \<Rightarrow> [[c]] | w # ws \<Rightarrow> (c # w) # ws))"

fun join_sep :: "string list \<Rightarrow> string" where
  \<comment> \<open>\<^verbatim>\<open>'/'.join(comps)\<close>\<close>
  "join_sep [] = []"
| "join_sep [x] = x"
| "join_sep (x # y # ys) = x @ ''/'' @ join_sep (y # ys)"

definition norm_comp :: "nat \<Rightarrow> string list \<Rightarrow> string \<Rightarrow> string list" where
  \<comment> \<open>one turn of the loop of \<^verbatim>\<open>normpath\<close> over the components\<close>
  "norm_comp initial_slashes new_comps component =
     (if component = [] \<or> component = ''.'' then new_comps
      else if component \<noteq> ''..'' \<or> (initial_slashes = 0 \<and> new_comps = [])
              \<or> (new_comps \<noteq> [] \<and> last new_comps = ''..'')
        then new_comps @ [component]
      else if new_comps \<noteq> [] then butlast new_comps
      else new_comps)"

definition normpath :: "string \<Rightarrow> string" where
  "normpath path =
     (if path = [] then ''.''
      else
        let initial_slashes =
              (if prefix ''//'' path \<and> \<not> prefix ''///'' path then 2
               else if prefix ''/'' path then 1 else (0::nat));
            comps = foldl (norm_comp initial_slashes) [] (split_sep path);
            path' = replicate initial_slashes CHR ''/'' @ join_sep comps
        in if path' = [] then ''.'' else path')"

definition abspath :: "string \<Rightarrow> string \<Rightarrow> string" where
  \<comment> \<open>\<^verbatim>\<open>os.path.abspath(path)\<close>, the first argument being \<^verbatim>\<open>os.getcwd()\<close>\<close>
  "abspath getcwd path =
     normpath (if prefix ''/'' path then path else path_join getcwd path)"


section \<open>The file system and the process around the program\<close>

text \<open>
  The file system is a finite tree without symbolic links: a map from the list of names
  that leads from the root to an entry, to that entry. A regular file carries its bytes
  and its modification time. The world of one run also holds the working directory, a
  clock, the standard output, and the list of file-system calls the program has made so
  far (so that "no file-system access" can be stated).

  The model has no permission bits, no limit on the length of a name and no full disk: a
  call fails in it only for the shape of the tree (a missing entry, a file where a
  directory is needed, a directory where a file is needed, an entry that is already
  there, a file copied onto itself). The general theorems for the claims do not lean on
  that: where one of them concludes that a file or a directory is there after a call, it
  assumes that the call has returned. The lemmas that conclude that a call returns
  (\<open>copy2_ok\<close>, \<open>copy_images_step_copies\<close>, \<open>probe_succeeds_iff\<close>) speak of this file system
  only, and the examples run in it.
\<close>

datatype inode = File string nat | Dir

datatype error =
    FileNotFoundError | NotADirectoryError | IsADirectoryError | FileExistsError
  | SameFileError | IOError | UnicodeDecodeError | AttributeError | SystemExit nat

datatype fs_call =
    Makedirs string | Exists string | Copy2 string string
  | OpenRead string | OpenWrite string | Remove string | Wkhtmltopdf string

record world =
  ents :: "string list \<Rightarrow> inode option"
  cwd :: string
  clock :: nat
  calls :: "fs_call list"
  stdout :: "string list"

type_synonym 'a io = "world \<Rightarrow> (error + 'a) \<times> world"

definition io_return :: "'a \<Rightarrow> 'a io" where
  "io_return a w = (Inr a, w)"

definition io_raise :: "error \<Rightarrow> 'a io" where
  "io_raise e w = (Inl e, w)"

definition io_bind :: "'a io \<Rightarrow> ('a \<Rightarrow> 'b io) \<Rightarrow> 'b io" where
  \<comment> \<open>sequencing: an exception skips the rest, the effects made so far stay\<close>
  "io_bind m f w = (case m w of (Inl e, w') \<Rightarrow> (Inl e, w') | (Inr a, w') \<Rightarrow> f a w')"

definition io_log :: "fs_call \<Rightarrow> unit io" where
  "io_log c w = (Inr (), w\<lparr>calls := calls w @ [c]\<rparr>)"

fun walk :: "(string list \<Rightarrow> inode option) \<Rightarrow> string list \<Rightarrow> string list \<Rightarrow> error + string list" where
  \<comment> \<open>path resolution as the kernel does it: every component is looked up in a directory\<close>
  "walk es cur [] = Inr cur"
| "walk es cur (c # cs) =
     (case es cur of
        None \<Rightarrow> Inl FileNotFoundError
      | Some (File _ _) \<Rightarrow> Inl NotADirectoryError
      | Some Dir \<Rightarrow>
          if c = [] \<or> c = ''.'' then walk es cur cs
          else if c = ''..'' then walk es (butlast cur) cs
          else walk es (cur @ [c]) cs)"

definition resolve :: "world \<Rightarrow> string \<Rightarrow> error + string list" where
  "resolve w p =
     (if p = [] then Inl FileNotFoundError
      else walk (ents w) [] (split_sep (if prefix ''/'' p then p else cwd w @ ''/'' @ p)))"

definition stat :: "world \<Rightarrow> string \<Rightarrow> inode option" where
  "stat w p = (case resolve w p of Inl _ \<Rightarrow> None | Inr q \<Rightarrow> ents w q)"

definition path_exists :: "world \<Rightarrow> string \<Rightarrow> bool" where
  "path_exists w p = (stat w p \<noteq> None)"

definition path_isdir :: "world \<Rightarrow> string \<Rightarrow> bool" where
  "path_isdir w p = (stat w p = Some Dir)"

definition samefile :: "world \<Rightarrow> string \<Rightarrow> string \<Rightarrow> bool" where
  \<comment> \<open>\<^verbatim>\<open>shutil._samefile\<close>: both exist and are the same entry; a failing \<^verbatim>\<open>stat\<close> gives False\<close>
  "samefile w a b = (stat w a \<noteq> None \<and> stat w b \<noteq> None \<and> resolve w a = resolve w b)"

definition mkdir :: "string \<Rightarrow> unit io" where
  \<comment> \<open>\<^verbatim>\<open>os.mkdir\<close>: trailing slashes of the new name are ignored\<close>
  "mkdir p w =
     (case resolve w (if all_sep p then p else rstrip_sep p) of
        Inl e \<Rightarrow> (Inl e, w)
      | Inr q \<Rightarrow>
          if ents w q \<noteq> None then (Inl FileExistsError, w)
          else (Inr (), w\<lparr>ents := (ents w)(q \<mapsto> Dir)\<rparr>))"

definition read_file :: "string \<Rightarrow> string io" where
  \<comment> \<open>\<^verbatim>\<open>open(p, 'r').read()\<close>\<close>
  "read_file p w =
     (case resolve w p of
        Inl e \<Rightarrow> (Inl e, w)
      | Inr q \<Rightarrow>
          (case ents w q of
             None \<Rightarrow> (Inl FileNotFoundError, w)
           | Some Dir \<Rightarrow> (Inl IsADirectoryError, w)
           | Some (File c _) \<Rightarrow> (Inr c, w)))"

definition write_file :: "string \<Rightarrow> string \<Rightarrow> unit io" where
  \<comment> \<open>\<^verbatim>\<open>open(p, 'w').write(c)\<close>: creates or truncates, stamps the time\<close>
  "write_file p c w =
     (case resolve w p of
        Inl e \<Rightarrow> (Inl e, w)
      | Inr q \<Rightarrow>
          if ents w q = Some Dir then (Inl IsADirectoryError, w)
          else (Inr (), w\<lparr>ents := (ents w)(q \<mapsto> File c (clock w)), clock := Suc (clock w)\<rparr>))"

definition unlink :: "string \<Rightarrow> unit io" where
  "unlink p w =
     (case resolve w p of
        Inl e \<Rightarrow> (Inl e, w)
      | Inr q \<Rightarrow>
          (case ents w q of
             None \<Rightarrow> (Inl FileNotFoundError, w)
           | Some Dir \<Rightarrow> (Inl IsADirectoryError, w)
           | Some (File _ _) \<Rightarrow> (Inr (), w\<lparr>ents := (ents w)(q := None)\<rparr>)))"

definition copyfile :: "string \<Rightarrow> string \<Rightarrow> unit io" where
  \<comment> \<open>\<^verbatim>\<open>shutil.copyfile\<close>\<close>
  "copyfile src dst w =
     (if samefile w src dst then (Inl SameFileError, w)
      else io_bind (read_file src) (\<lambda>c. write_file dst c) w)"

definition copystat :: "string \<Rightarrow> string \<Rightarrow> unit io" where
  \<comment> \<open>\<^verbatim>\<open>shutil.copystat\<close>: the modification time of \<open>src\<close> is given to \<open>dst\<close>\<close>
  "copystat src dst w =
     (case (stat w src, resolve w dst) of
        (Some (File _ m), Inr q) \<Rightarrow>
          (case ents w q of
             Some (File c _) \<Rightarrow> (Inr (), w\<lparr>ents := (ents w)(q \<mapsto> File c m)\<rparr>)
           | _ \<Rightarrow> (Inl FileNotFoundError, w))
      | _ \<Rightarrow> (Inl FileNotFoundError, w))"

definition copy2 :: "string \<Rightarrow> string \<Rightarrow> unit io" where
  \<comment> \<open>\<^verbatim>\<open>shutil.copy2\<close>: a destination that is a directory receives the file under its base name\<close>
  "copy2 src dst w =
     (let dst' = (if path_isdir w dst then path_join dst (basename src) else dst)
      in io_bind (copyfile src dst') (\<lambda>_. copystat src dst') w)"

definition makedirs_leaf :: "string \<Rightarrow> unit io" where
  \<comment> \<open>the last statement of \<^verbatim>\<open>os.makedirs(name, exist_ok=True)\<close>: \<^verbatim>\<open>mkdir\<close>, whose error is
      dropped when the name is a directory\<close>
  "makedirs_leaf name w =
     (case mkdir name w of
        (Inl e, w') \<Rightarrow> if path_isdir w' name then (Inr (), w') else (Inl e, w')
      | (Inr u, w') \<Rightarrow> (Inr u, w'))"

definition makedirs_head :: "string \<Rightarrow> string" where
  "makedirs_head name = (if basename name = [] then dirname (dirname name) else dirname name)"

definition makedirs_tail :: "string \<Rightarrow> string" where
  "makedirs_tail name = (if basename name = [] then basename (dirname name) else basename name)"

function makedirs :: "string \<Rightarrow> unit io" where
  \<comment> \<open>\<^verbatim>\<open>os.makedirs(name, exist_ok=True)\<close>, as both calls of the program pass it\<close>
  "makedirs name w =
     (if makedirs_head name \<noteq> [] \<and> makedirs_tail name \<noteq> []
         \<and> \<not> path_exists w (makedirs_head name)
      then
        (case makedirs (makedirs_head name) w of
           (Inl e, w1) \<Rightarrow>
             if e = FileExistsError
             then (if makedirs_tail name = ''.'' then (Inr (), w1) else makedirs_leaf name w1)
             else (Inl e, w1)
         | (Inr u, w1) \<Rightarrow>
             if makedirs_tail name = ''.'' then (Inr (), w1) else makedirs_leaf name w1)
      else makedirs_leaf name w)"
  by pat_completeness auto
termination
proof (relation "measure (\<lambda>(name, w). length name)")
  show "wf (measure (\<lambda>(name, w). length name))" by simp
next
  fix name :: string and w :: world
  assume "makedirs_head name \<noteq> [] \<and> makedirs_tail name \<noteq> []
      \<and> \<not> path_exists w (makedirs_head name)"
  then have t: "makedirs_tail name \<noteq> []" by simp
  have strip: "length (rstrip_sep s) \<le> length s" for s
    by (simp add: rstrip_sep_def) (metis length_dropWhile_le length_rev)
  have parts: "length (dirname p) + length (basename p) \<le> length p" for p
  proof -
    have "length (path_head p) + length (basename p) = length p"
      unfolding path_head_def basename_def
      by (metis add.commute length_append length_rev takeWhile_dropWhile_id)
    moreover have "length (dirname p) \<le> length (path_head p)"
      by (simp add: dirname_def Let_def strip)
    ultimately show ?thesis by linarith
  qed
  have "length (makedirs_head name) < length name"
  proof (cases "basename name = []")
    case True
    with t have "basename (dirname name) \<noteq> []" by (simp add: makedirs_tail_def)
    then have "0 < length (basename (dirname name))" by simp
    moreover have "length (dirname name) \<le> length name"
      using parts [of name] by linarith
    ultimately have "length (dirname (dirname name)) < length name"
      using parts [of "dirname name"] by linarith
    with True show ?thesis by (simp add: makedirs_head_def)
  next
    case False
    then have "0 < length (basename name)" by simp
    with parts [of name] have "length (dirname name) < length name" by linarith
    with False show ?thesis by (simp add: makedirs_head_def)
  qed
  then show "((makedirs_head name, w), (name, w)) \<in> measure (\<lambda>(name, w). length name)"
    by simp
qed

declare makedirs.simps [simp del]

text \<open>
  The calls the program makes, each entered in the list of calls before it acts.
\<close>

definition os_makedirs :: "string \<Rightarrow> unit io" where
  "os_makedirs name = io_bind (io_log (Makedirs name)) (\<lambda>_. makedirs name)"

definition os_path_exists :: "string \<Rightarrow> bool io" where
  "os_path_exists p = io_bind (io_log (Exists p)) (\<lambda>_ w. (Inr (path_exists w p), w))"

definition shutil_copy2 :: "string \<Rightarrow> string \<Rightarrow> unit io" where
  "shutil_copy2 src dst = io_bind (io_log (Copy2 src dst)) (\<lambda>_. copy2 src dst)"

definition open_read :: "(string \<Rightarrow> string option) \<Rightarrow> string \<Rightarrow> string io" where
  \<comment> \<open>\<^verbatim>\<open>open(p, 'r', encoding='utf-8').read()\<close>: the bytes of the file, decoded by \<open>dec\<close>\<close>
  "open_read dec p =
     io_bind (io_log (OpenRead p)) (\<lambda>_.
     io_bind (read_file p) (\<lambda>bytes.
       case dec bytes of None \<Rightarrow> io_raise UnicodeDecodeError | Some text \<Rightarrow> io_return text))"

definition open_write :: "string \<Rightarrow> string \<Rightarrow> unit io" where
  "open_write p c = io_bind (io_log (OpenWrite p)) (\<lambda>_. write_file p c)"

definition os_remove :: "string \<Rightarrow> unit io" where
  "os_remove p = io_bind (io_log (Remove p)) (\<lambda>_. unlink p)"


section \<open>The libraries the program delegates to\<close>

text \<open>
  Decoding UTF-8, parsing and printing HTML (\<^verbatim>\<open>BeautifulSoup\<close>), converting Markdown
  (\<^verbatim>\<open>markdown2\<close>) and rendering PDF (\<^verbatim>\<open>pdfkit\<close> over the \<^verbatim>\<open>wkhtmltopdf\<close> binary) are not code of
  the program. They are parameters: every theorem holds whatever they compute. The parsed
  document is a tree; an element has a name, its attributes in order, and its children.
  Every other kind of node (text, comment, doctype) is a \<open>Text\<close>.
\<close>

datatype node = Text string | Element string "(string \<times> string) list" "node list"

record libs =
  utf8_decode :: "string \<Rightarrow> string option"
  markdown :: "string \<Rightarrow> string"
  soup_parse :: "string \<Rightarrow> node list"
  soup_str :: "node list \<Rightarrow> string"
  wk_installed :: bool
  wk_render :: "(string list \<Rightarrow> inode option) \<Rightarrow> string \<Rightarrow> (string \<times> string option) list \<Rightarrow> string option"

fun find_all :: "string \<Rightarrow> node \<Rightarrow> (string \<times> string) list list"
  and find_all_list :: "string \<Rightarrow> node list \<Rightarrow> (string \<times> string) list list" where
  \<comment> \<open>\<^verbatim>\<open>soup.find_all(name)\<close>: the attributes of the elements of that name, in document order\<close>
  "find_all name (Text s) = []"
| "find_all name (Element n attrs kids) =
     (if n = name then [attrs] else []) @ find_all_list name kids"
| "find_all_list name [] = []"
| "find_all_list name (k # ks) = find_all name k @ find_all_list name ks"


section \<open>\<^verbatim>\<open>copy_images\<close>\<close>

definition image_src :: "string \<Rightarrow> string \<Rightarrow> string" where
  \<comment> \<open>lines 81 to 85: the value of \<^verbatim>\<open>src\<close> after the two prefixes have been handled\<close>
  "image_src input_dir src0 =
     (if prefix ''./'' src0 then drop 2 src0
      else if prefix ''../'' src0 then normpath (path_join input_dir src0)
      else src0)"

definition mirror_dirs :: "string \<Rightarrow> string \<Rightarrow> unit io" where
  \<comment> \<open>lines 92 to 94: the directory of the reference is created under the output directory\<close>
  "mirror_dirs output_dir src =
     (let rel_path = dirname src
      in if rel_path \<noteq> [] then os_makedirs (path_join output_dir rel_path) else io_return ())"

definition copy_images_step :: "string \<Rightarrow> string \<Rightarrow> (string \<times> string) list \<Rightarrow> (string \<times> string) list io" where
  \<comment> \<open>the body of \<^verbatim>\<open>for img in img_tags\<close> (lines 78 to 100), on the attributes of \<open>img\<close>;
      the result is the attributes after the turn\<close>
  "copy_images_step input_dir output_dir img =
     (case map_of img ''src'' of
        None \<Rightarrow> io_return img
      | Some src0 \<Rightarrow>
          if src0 = [] then io_return img
          else
            let src = image_src input_dir src0;
                img_path = path_join input_dir src
            in io_bind (os_path_exists img_path) (\<lambda>found.
                 if found then
                   io_bind (mirror_dirs output_dir src) (\<lambda>_.
                   io_bind (shutil_copy2 img_path (path_join output_dir src)) (\<lambda>_.
                   io_return (AList.update ''src'' src img)))
                 else io_return img))"

fun copy_images_node :: "string \<Rightarrow> string \<Rightarrow> node \<Rightarrow> node io"
  and copy_images_loop :: "string \<Rightarrow> string \<Rightarrow> node list \<Rightarrow> node list io" where
  \<comment> \<open>the loop over \<^verbatim>\<open>soup.find_all('img')\<close>: the elements named \<open>img\<close> are visited in document
      order and updated in place, the file system being threaded through\<close>
  "copy_images_node input_dir output_dir (Text s) w = (Inr (Text s), w)"
| "copy_images_node input_dir output_dir (Element n attrs kids) w =
     (case (if n = ''img'' then copy_images_step input_dir output_dir attrs w else (Inr attrs, w)) of
        (Inl e, w1) \<Rightarrow> (Inl e, w1)
      | (Inr attrs', w1) \<Rightarrow>
          (case copy_images_loop input_dir output_dir kids w1 of
             (Inl e, w2) \<Rightarrow> (Inl e, w2)
           | (Inr kids', w2) \<Rightarrow> (Inr (Element n attrs' kids'), w2)))"
| "copy_images_loop input_dir output_dir [] w = (Inr [], w)"
| "copy_images_loop input_dir output_dir (k # ks) w =
     (case copy_images_node input_dir output_dir k w of
        (Inl e, w1) \<Rightarrow> (Inl e, w1)
      | (Inr k', w1) \<Rightarrow>
          (case copy_images_loop input_dir output_dir ks w1 of
             (Inl e, w2) \<Rightarrow> (Inl e, w2)
           | (Inr ks', w2) \<Rightarrow> (Inr (k' # ks'), w2)))"

text \<open>
  The loop as the source writes it, \<^verbatim>\<open>for img in img_tags\<close>, over the list that
  \<^verbatim>\<open>soup.find_all('img')\<close> returns. Lemma \<open>copy_images_loop_is_for\<close> below shows that the
  traversal above is this loop: same exception or same attributes, same world.
\<close>

fun for_img_tags ::
  "string \<Rightarrow> string \<Rightarrow> (string \<times> string) list list \<Rightarrow> (string \<times> string) list list io" where
  "for_img_tags input_dir output_dir [] w = (Inr [], w)"
| "for_img_tags input_dir output_dir (img # img_tags) w =
     (case copy_images_step input_dir output_dir img w of
        (Inl e, w1) \<Rightarrow> (Inl e, w1)
      | (Inr img', w1) \<Rightarrow>
          (case for_img_tags input_dir output_dir img_tags w1 of
             (Inl e, w2) \<Rightarrow> (Inl e, w2)
           | (Inr imgs', w2) \<Rightarrow> (Inr (img' # imgs'), w2)))"

definition found_imgs ::
  "('a \<Rightarrow> (string \<times> string) list list) \<Rightarrow> (error + 'a) \<times> world
     \<Rightarrow> (error + (string \<times> string) list list) \<times> world" where
  \<comment> \<open>the image elements of a result\<close>
  "found_imgs f r = (case r of (Inl e, w) \<Rightarrow> (Inl e, w) | (Inr x, w) \<Rightarrow> (Inr (f x), w))"

definition copy_images :: "libs \<Rightarrow> string \<Rightarrow> string \<Rightarrow> string \<Rightarrow> bool \<Rightarrow> string io" where
  "copy_images lib html_content input_file output_dir no_images w =
     (if no_images then (Inr html_content, w)
      else
        let input_dir = dirname (abspath (cwd w) input_file)
        in io_bind (os_makedirs output_dir) (\<lambda>_.
           io_bind (copy_images_loop input_dir output_dir (soup_parse lib html_content)) (\<lambda>soup.
           io_return (soup_str lib soup))) w)"


section \<open>The template, the conversions and \<^verbatim>\<open>main\<close>\<close>

definition generate_html_template ::
  "string \<Rightarrow> string \<Rightarrow> string \<Rightarrow> string \<Rightarrow> string \<Rightarrow> string \<Rightarrow> string \<Rightarrow> string" where
  \<open>generate_html_template html_content bg_color text_color heading_color link_color code_bg border_color =
     ''\<newline>'' @
     ''    <!DOCTYPE html>\<newline>'' @
     ''    <html>\<newline>'' @
     ''    <head>\<newline>'' @
     ''        <meta charset="UTF-8">\<newline>'' @
     ''        <style>\<newline>'' @
     ''            body {\<newline>'' @
     ''                font-family: -apple-system, BlinkMacSystemFont, "Segoe UI", Roboto, "Helvetica Neue", Arial, sans-serif;\<newline>'' @
     ''                line-height: 1.6;\<newline>'' @
     ''                max-width: 800px;\<newline>'' @
     ''                margin: 0 auto;\<newline>'' @
     ''                padding: 20px;\<newline>'' @
     ''                background-color: '' @
     bg_color @
     '';\<newline>'' @
     ''                color: '' @
     text_color @
     '';\<newline>'' @
     ''            }\<newline>'' @
     ''            h1, h2, h3, h4, h5, h6 {\<newline>'' @
     ''                color: '' @
     heading_color @
     '';\<newline>'' @
     ''                margin-top: 24px;\<newline>'' @
     ''                margin-bottom: 16px;\<newline>'' @
     ''                font-weight: 600;\<newline>'' @
     ''                line-height: 1.25;\<newline>'' @
     ''            }\<newline>'' @
     ''            a {\<newline>'' @
     ''                color: '' @
     link_color @
     '';\<newline>'' @
     ''                text-decoration: none;\<newline>'' @
     ''            }\<newline>'' @
     ''            a:hover {\<newline>'' @
     ''                text-decoration: underline;\<newline>'' @
     ''            }\<newline>'' @
     ''            code {\<newline>'' @
     ''                background-color: '' @
     code_bg @
     '';\<newline>'' @
     ''                padding: 0.2em 0.4em;\<newline>'' @
     ''                border-radius: 3px;\<newline>'' @
     ''                font-family: "SFMono-Regular", Consolas, "Liberation Mono", Menlo, monospace;\<newline>'' @
     ''            }\<newline>'' @
     ''            pre {\<newline>'' @
     ''                background-color: '' @
     code_bg @
     '';\<newline>'' @
     ''                padding: 16px;\<newline>'' @
     ''                border-radius: 6px;\<newline>'' @
     ''                overflow: auto;\<newline>'' @
     ''            }\<newline>'' @
     ''            pre code {\<newline>'' @
     ''                background-color: transparent;\<newline>'' @
     ''                padding: 0;\<newline>'' @
     ''            }\<newline>'' @
     ''            img {\<newline>'' @
     ''                max-width: 100%;\<newline>'' @
     ''                height: auto;\<newline>'' @
     ''                display: block;\<newline>'' @
     ''                margin: 0 auto;\<newline>'' @
     ''            }\<newline>'' @
     ''            table {\<newline>'' @
     ''                border-collapse: collapse;\<newline>'' @
     ''                width: 100%;\<newline>'' @
     ''                margin-bottom: 16px;\<newline>'' @
     ''            }\<newline>'' @
     ''            th, td {\<newline>'' @
     ''                border: 1px solid '' @
     border_color @
     '';\<newline>'' @
     ''                padding: 6px 13px;\<newline>'' @
     ''            }\<newline>'' @
     ''            th {\<newline>'' @
     ''                background-color: '' @
     code_bg @
     '';\<newline>'' @
     ''            }\<newline>'' @
     ''            blockquote {\<newline>'' @
     ''                padding: 0 1em;\<newline>'' @
     ''                color: '' @
     text_color @
     '';\<newline>'' @
     ''                border-left: 0.25em solid '' @
     border_color @
     '';\<newline>'' @
     ''                margin: 0 0 16px 0;\<newline>'' @
     ''            }\<newline>'' @
     ''        </style>\<newline>'' @
     ''    </head>\<newline>'' @
     ''    <body>\<newline>'' @
     ''        '' @
     html_content @
     ''\<newline>'' @
     ''    </body>\<newline>'' @
     ''    </html>\<newline>'' @
     ''    ''\<close>

definition convert_markdown_to_html ::
  "libs \<Rightarrow> string \<Rightarrow> string \<Rightarrow> string \<Rightarrow> string \<Rightarrow> string \<Rightarrow> string \<Rightarrow> string \<Rightarrow> string io" where
  "convert_markdown_to_html lib input_file bg_color text_color heading_color link_color code_bg border_color =
     io_bind (open_read (utf8_decode lib) input_file) (\<lambda>markdown_text.
       io_return (generate_html_template (markdown lib markdown_text)
         bg_color text_color heading_color link_color code_bg border_color))"

definition pdfkit_from_string :: "libs \<Rightarrow> string \<Rightarrow> string \<Rightarrow> unit io" where
  \<comment> \<open>\<^verbatim>\<open>pdfkit.from_string(input, output_path)\<close>: every failure of the binary is an \<^verbatim>\<open>IOError\<close>\<close>
  "pdfkit_from_string lib input_text output_path =
     io_bind (io_log (Wkhtmltopdf output_path)) (\<lambda>_ w.
       if \<not> wk_installed lib then (Inl IOError, w)
       else
         (case wk_render lib (ents w) input_text [] of
            None \<Rightarrow> (Inl IOError, w)
          | Some pdf \<Rightarrow>
              (case write_file output_path pdf w of
                 (Inl e, w') \<Rightarrow> (Inl IOError, w')
               | (Inr u, w') \<Rightarrow> (Inr u, w'))))"

definition pdfkit_from_file ::
  "libs \<Rightarrow> string \<Rightarrow> string \<Rightarrow> (string \<times> string option) list \<Rightarrow> unit io" where
  \<comment> \<open>\<^verbatim>\<open>pdfkit.from_file(input, output_path, options=options)\<close>\<close>
  "pdfkit_from_file lib input_path output_path options =
     io_bind (io_log (Wkhtmltopdf output_path)) (\<lambda>_ w.
       if \<not> wk_installed lib then (Inl IOError, w)
       else
         (case read_file input_path w of
            (Inl e, w') \<Rightarrow> (Inl IOError, w')
          | (Inr html, w') \<Rightarrow>
              (case wk_render lib (ents w') html options of
                 None \<Rightarrow> (Inl IOError, w')
               | Some pdf \<Rightarrow>
                   (case write_file output_path pdf w' of
                      (Inl e, w'') \<Rightarrow> (Inl IOError, w'')
                    | (Inr u, w'') \<Rightarrow> (Inr u, w'')))))"

definition convert_html_to_pdf :: "libs \<Rightarrow> string \<Rightarrow> string \<Rightarrow> string \<Rightarrow> string \<Rightarrow> unit io" where
  "convert_html_to_pdf lib html_file output_file page_size margin =
     pdfkit_from_file lib html_file output_file
       [(''page-size'', Some page_size),
        (''margin-top'', Some margin),
        (''margin-right'', Some margin),
        (''margin-bottom'', Some margin),
        (''margin-left'', Some margin),
        (''encoding'', Some ''UTF-8''),
        (''no-outline'', None)]"

datatype subcommand = MdToPdf | MdToHtml | HtmlToPdf

text \<open>
  Parsing the command line is the work of \<^verbatim>\<open>argparse\<close>, a library too: it is the parameter
  \<open>argparse\<close> of \<open>parse_arguments\<close> and \<open>main\<close>, a function from the command line to one of the
  three ways \<^verbatim>\<open>parse_args\<close> can end.

  The record \<open>args\<close> is the namespace \<^verbatim>\<open>parse_args\<close> returns. The subparsers of
  \<^verbatim>\<open>parse_arguments\<close> are not required, so a command line without a subcommand is accepted:
  its namespace has \<^verbatim>\<open>command=None\<close> and no other attribute (the other fields are then not
  read). The field \<open>output_arg\<close> is \<^verbatim>\<open>args.output\<close> (\<open>None\<close> when the option is not given).
\<close>

record args =
  command :: "subcommand option"
  input :: string
  output_arg :: "string option"
  bg_color :: string
  text_color :: string
  heading_color :: string
  link_color :: string
  code_bg :: string
  border_color :: string
  no_images :: bool
  page_size :: string
  margin :: string

datatype parse_outcome =
    Help string     \<comment> \<open>\<^verbatim>\<open>-h\<close>: the help text is printed and the process exits with status 0\<close>
  | Rejected        \<comment> \<open>the usage goes to the standard error, the process exits with status 2\<close>
  | Parsed args     \<comment> \<open>\<^verbatim>\<open>parse_args\<close> returns the namespace\<close>

definition print :: "string \<Rightarrow> unit io" where
  "print s w = (Inr (), w\<lparr>stdout := stdout w @ [s]\<rparr>)"

fun is_OSError :: "error \<Rightarrow> bool" where
  \<comment> \<open>the classes \<^verbatim>\<open>except OSError\<close> catches\<close>
  "is_OSError (SystemExit n) = False"
| "is_OSError UnicodeDecodeError = False"
| "is_OSError AttributeError = False"
| "is_OSError e = True"

definition parse_arguments :: "(string list \<Rightarrow> parse_outcome) \<Rightarrow> string list \<Rightarrow> args io" where
  \<comment> \<open>lines 14 to 50: the parser is built and \<^verbatim>\<open>parser.parse_args()\<close> is applied to the command
      line; \<^verbatim>\<open>argparse\<close> ends the process itself for \<^verbatim>\<open>-h\<close> and for a command line it rejects\<close>
  "parse_arguments argparse argv =
     (case argparse argv of
        Help text \<Rightarrow> io_bind (print text) (\<lambda>_. io_raise (SystemExit 0))
      | Rejected \<Rightarrow> io_raise (SystemExit 2)
      | Parsed a \<Rightarrow> io_return a)"

definition default_output :: "subcommand \<Rightarrow> args \<Rightarrow> string" where
  \<comment> \<open>lines 261 to 267: \<^verbatim>\<open>args.output\<close> after the defaults are set\<close>
  "default_output c a =
     (let given = (case output_arg a of None \<Rightarrow> [] | Some s \<Rightarrow> s)
      in if given = [] then
           (case c of
              MdToPdf \<Rightarrow> ''output.pdf''
            | MdToHtml \<Rightarrow> ''output.html''
            | HtmlToPdf \<Rightarrow> ''output.pdf'')
         else given)"

definition main_output_dir :: "subcommand \<Rightarrow> args \<Rightarrow> world \<Rightarrow> string" where
  \<comment> \<open>lines 270 to 272: the directory \<^verbatim>\<open>main\<close> passes to \<^verbatim>\<open>copy_images\<close>\<close>
  "main_output_dir c a w =
     (let output_dir = dirname (abspath (cwd w) (default_output c a))
      in if output_dir = [] then ''.'' else output_dir)"

definition probe :: "libs \<Rightarrow> unit io" where
  \<comment> \<open>lines 251 to 258: the check that \<^verbatim>\<open>wkhtmltopdf\<close> is installed\<close>
  "probe lib w =
     (case pdfkit_from_string lib [] ''test.pdf'' w of
        (Inl e, w1) \<Rightarrow>
          if is_OSError e then
            io_bind (print ''Error: wkhtmltopdf is not installed. Please install it first.'') (\<lambda>_.
            io_bind (print ''On Ubuntu/Debian: sudo apt-get install wkhtmltopdf'') (\<lambda>_.
            io_bind (print ''On macOS: brew install wkhtmltopdf'') (\<lambda>_.
            io_bind (print ''On Windows: Download from https://wkhtmltopdf.org/downloads.html'') (\<lambda>_.
            io_raise (SystemExit 1))))) w1
          else (Inl e, w1)
      | (Inr u, w1) \<Rightarrow> (Inr u, w1))"

definition dispatch :: "libs \<Rightarrow> args \<Rightarrow> unit io" where
  \<comment> \<open>lines 260 to 334 of \<^verbatim>\<open>main\<close>: the defaults, the output directory and the three
      subcommands; without a subcommand the namespace has no attribute \<^verbatim>\<open>output\<close> and line 261
      raises\<close>
  "dispatch lib a w =
     (case command a of
        None \<Rightarrow> (Inl AttributeError, w)
      | Some c \<Rightarrow>
       (let out = default_output c a;
            output_dir = main_output_dir c a w
        in (case c of
            MdToPdf \<Rightarrow>
              io_bind (convert_markdown_to_html lib (input a) (bg_color a) (text_color a)
                         (heading_color a) (link_color a) (code_bg a) (border_color a)) (\<lambda>html_content.
              io_bind (copy_images lib html_content (input a) output_dir (no_images a)) (\<lambda>html_content.
              io_bind (open_write ''temp.html'' html_content) (\<lambda>_.
              io_bind (convert_html_to_pdf lib ''temp.html'' out (page_size a) (margin a)) (\<lambda>_.
              os_remove ''temp.html''))))
          | MdToHtml \<Rightarrow>
              io_bind (convert_markdown_to_html lib (input a) (bg_color a) (text_color a)
                         (heading_color a) (link_color a) (code_bg a) (border_color a)) (\<lambda>html_content.
              io_bind (copy_images lib html_content (input a) output_dir (no_images a)) (\<lambda>html_content.
              open_write out html_content))
          | HtmlToPdf \<Rightarrow>
              io_bind (open_read (utf8_decode lib) (input a)) (\<lambda>html_content.
              io_bind (copy_images lib html_content (input a) output_dir (no_images a)) (\<lambda>html_content.
              io_bind (open_write ''temp.html'' html_content) (\<lambda>_.
              io_bind (convert_html_to_pdf lib ''temp.html'' out (page_size a) (margin a)) (\<lambda>_.
              os_remove ''temp.html''))))) w))"

definition main :: "(string list \<Rightarrow> parse_outcome) \<Rightarrow> libs \<Rightarrow> string list \<Rightarrow> unit io" where
  \<comment> \<open>lines 244 to 334; \<open>argv\<close> is the command line, \<^verbatim>\<open>sys.argv[1:]\<close>\<close>
  "main argparse lib argv =
     io_bind (parse_arguments argparse argv) (\<lambda>a.
     io_bind (probe lib) (\<lambda>_.
     dispatch lib a))"

definition path_isfile :: "world \<Rightarrow> string \<Rightarrow> bool" where
  \<comment> \<open>\<^verbatim>\<open>os.path.isfile\<close>\<close>
  "path_isfile w p = (case stat w p of Some (File _ _) \<Rightarrow> True | _ \<Rightarrow> False)"



definition step_dirs :: "string \<Rightarrow> string \<Rightarrow> string \<Rightarrow> world \<Rightarrow> (error + unit) \<times> world" where
  \<comment> \<open>a turn of the loop up to line 94, for a source that exists: the existence check has
      been made and the directory of the reference is created under the output directory\<close>
  "step_dirs input_dir output_dir src0 w =
     mirror_dirs output_dir (image_src input_dir src0)
       (w\<lparr>calls := calls w @ [Exists (path_join input_dir (image_src input_dir src0))]\<rparr>)"

section \<open>Relations between the world before and after a call\<close>

definition extends :: "world \<Rightarrow> world \<Rightarrow> bool" where
  \<comment> \<open>nothing is lost: every entry is still there, unchanged\<close>
  "extends w w' =
     (cwd w' = cwd w \<and> (\<forall>q x. ents w q = Some x \<longrightarrow> ents w' q = Some x))"

definition grows :: "world \<Rightarrow> world \<Rightarrow> bool" where
  \<comment> \<open>no entry is removed: a directory stays a directory, a file stays a file; and the
      calls made so far stay at the head of the list of calls\<close>
  "grows w w' =
     (cwd w' = cwd w
      \<and> prefix (calls w) (calls w')
      \<and> (\<forall>q. ents w q = Some Dir \<longrightarrow> ents w' q = Some Dir)
      \<and> (\<forall>q c m. ents w q = Some (File c m) \<longrightarrow> (\<exists>c' m'. ents w' q = Some (File c' m'))))"

definition steps :: "(world \<Rightarrow> world \<Rightarrow> bool) \<Rightarrow> 'a io \<Rightarrow> bool" where
  \<comment> \<open>every run of \<open>m\<close> takes the world to one related to it by \<open>R\<close>, also when it raises\<close>
  "steps R m = (\<forall>w. R w (snd (m w)))"

definition keeps :: "(world \<Rightarrow> bool) \<Rightarrow> 'a io \<Rightarrow> bool" where
  "keeps P m = (\<forall>w. P w \<longrightarrow> P (snd (m w)))"


section \<open>A concrete file system for the examples\<close>

text \<open>
  The working directory is \<open>/w\<close>. The documents \<open>/w/doc/README.md\<close> and \<open>/w/doc/page.html\<close> refer
  to the picture \<open>/w/doc/img/pic.png\<close>; another picture lies one directory up, at
  \<open>/w/pic.png\<close>.
\<close>

definition world0 :: world where
  \<open>world0 =
     \<lparr>ents = [[] \<mapsto> Dir, [''w''] \<mapsto> Dir, [''w'', ''doc''] \<mapsto> Dir,
              [''w'', ''doc'', ''README.md''] \<mapsto> File ''![p](./img/pic.png)'' 5,
              [''w'', ''doc'', ''page.html''] \<mapsto> File ''<img src="./img/pic.png"/>'' 6,
              [''w'', ''doc'', ''img''] \<mapsto> Dir,
              [''w'', ''doc'', ''img'', ''pic.png''] \<mapsto> File ''PNG'' 7,
              [''w'', ''pic.png''] \<mapsto> File ''TOP'' 3],
      cwd = ''/w'', clock = 10, calls = [], stdout = []\<rparr>\<close>

definition world_doc :: world where
  \<comment> \<open>the same file system, the working directory being that of the documents\<close>
  "world_doc = world0\<lparr>cwd := ''/w/doc''\<rparr>"

definition world_blocked :: world where
  \<comment> \<open>the same file system, with a directory named \<open>test.pdf\<close> in the working directory\<close>
  "world_blocked = world0\<lparr>ents := (ents world0)([''w'', ''test.pdf''] \<mapsto> Dir)\<rparr>"

definition one_img :: "string \<Rightarrow> node list" where
  \<comment> \<open>a parser for the examples: it knows the documents that are one \<open>img\<close> element with a
      source, and takes every other document for text\<close>
  \<open>one_img s =
     (if prefix ''<img src="'' s \<and> suffix ''"/>'' s \<and> 13 \<le> length s
      then [Element ''img'' [(''src'', take (length s - 13) (drop 10 s))] []]
      else [Text s])\<close>

fun attrs_str :: "(string \<times> string) list \<Rightarrow> string" where
  \<open>attrs_str [] = []\<close>
| \<open>attrs_str ((k, v) # kvs) = '' '' @ k @ ''="'' @ v @ ''"'' @ attrs_str kvs\<close>

fun node_str :: "node \<Rightarrow> string" where
  \<comment> \<open>the printer for the examples; an element without children is printed as a void element\<close>
  "node_str (Text s) = s"
| "node_str (Element n attrs kids) =
     (if kids = [] then ''<'' @ n @ attrs_str attrs @ ''/>''
      else ''<'' @ n @ attrs_str attrs @ ''>'' @ concat (map node_str kids) @ ''</'' @ n @ ''>'')"

definition args0 :: args where
  \<comment> \<open>the namespace of \<^verbatim>\<open>md2pdf.py html-to-pdf doc/README.md --no-images\<close>\<close>
  "args0 =
     \<lparr>command = Some HtmlToPdf, input = ''doc/README.md'', output_arg = None,
      bg_color = ''#0d1117'', text_color = ''#c9d1d9'', heading_color = ''#e6f1ff'',
      link_color = ''#58a6ff'', code_bg = ''#161b22'', border_color = ''#30363d'',
      no_images = True, page_size = ''A4'', margin = ''10mm''\<rparr>"

definition args1 :: args where
  \<comment> \<open>the namespace of \<^verbatim>\<open>md2pdf.py md-to-html doc/README.md --no-images\<close>\<close>
  "args1 = args0\<lparr>command := Some MdToHtml\<rparr>"

definition args2 :: args where
  \<comment> \<open>the namespace of \<^verbatim>\<open>md2pdf.py html-to-pdf page.html\<close>\<close>
  "args2 = args0\<lparr>input := ''page.html'', no_images := False\<rparr>"

definition args3 :: args where
  \<comment> \<open>the namespace of \<^verbatim>\<open>md2pdf.py md-to-html doc/README.md -o out/pdf/page.html\<close>\<close>
  "args3 = args0\<lparr>command := Some MdToHtml, output_arg := Some ''out/pdf/page.html'',
                   no_images := False\<rparr>"

definition args_none :: args where
  \<comment> \<open>the namespace of \<^verbatim>\<open>md2pdf.py\<close> without a subcommand: \<^verbatim>\<open>command=None\<close>\<close>
  "args_none = args0\<lparr>command := None\<rparr>"

definition help_text :: string where
  \<comment> \<open>what \<^verbatim>\<open>md2pdf.py --help\<close> prints (Python 3.11)\<close>
  "help_text =
     ''usage: md2pdf.py [-h] {md-to-pdf,md-to-html,html-to-pdf} ...\<newline>'' @
     ''\<newline>'' @
     ''Convert Markdown to PDF with GitHub dark theme\<newline>'' @
     ''\<newline>'' @
     ''positional arguments:\<newline>'' @
     ''  {md-to-pdf,md-to-html,html-to-pdf}\<newline>'' @
     ''                        Command to execute\<newline>'' @
     ''\<newline>'' @
     ''options:\<newline>'' @
     ''  -h, --help            show this help message and exit''"

definition argparse0 :: "string list \<Rightarrow> parse_outcome" where
  \<comment> \<open>\<^verbatim>\<open>argparse\<close> for the examples: it knows the command lines below and rejects every other\<close>
  "argparse0 argv =
     (if argv = [''--help''] then Help help_text
      else if argv = [] then Parsed args_none
      else if argv = [''html-to-pdf'', ''doc/README.md'', ''--no-images''] then Parsed args0
      else if argv = [''md-to-html'', ''doc/README.md'', ''--no-images''] then Parsed args1
      else if argv = [''html-to-pdf'', ''page.html''] then Parsed args2
      else if argv = [''md-to-html'', ''doc/README.md'', ''-o'', ''out/pdf/page.html''] then Parsed args3
      else Rejected)"

definition ascii_text :: "string \<Rightarrow> string option" where
  \<comment> \<open>the decoder for the examples: on ASCII text without carriage return, decoding UTF-8
      with universal newlines changes nothing; every other file is refused\<close>
  "ascii_text bytes =
     (if list_all (\<lambda>c. of_char c < (128::nat) \<and> c \<noteq> CHR 0x0D) bytes then Some bytes else None)"

definition lib0 :: libs where
  "lib0 =
     \<lparr>utf8_decode = ascii_text,
      markdown = (\<lambda>s. s), soup_parse = one_img, soup_str = (\<lambda>soup. concat (map node_str soup)),
      wk_installed = True, wk_render = (\<lambda>es html opts. Some ''%PDF'')\<rparr>"

definition world1 :: world where
  \<comment> \<open>the same, with an output directory \<open>/w/out\<close> in which \<open>img/pic.png\<close> is a directory\<close>
  "world1 =
     world0\<lparr>ents := (ents world0)([''w'', ''out''] \<mapsto> Dir,
                                   [''w'', ''out'', ''img''] \<mapsto> Dir,
                                   [''w'', ''out'', ''img'', ''pic.png''] \<mapsto> Dir)\<rparr>"

definition lib_absent :: libs where
  \<comment> \<open>the same libraries on a machine without \<^verbatim>\<open>wkhtmltopdf\<close>\<close>
  "lib_absent = lib0\<lparr>wk_installed := False\<rparr>"

definition lib_failing :: libs where
  \<comment> \<open>a renderer that accepts the empty document of the probe and fails on every other\<close>
  "lib_failing = lib0\<lparr>wk_render := (\<lambda>es html opts. if html = [] then Some ''%PDF'' else None)\<rparr>"


section \<open>Facts about the world and about sequencing\<close>

lemma io_bind_Inr:
  "io_bind m f w = (Inr b, w') \<longleftrightarrow> (\<exists>a w1. m w = (Inr a, w1) \<and> f a w1 = (Inr b, w'))"
  by (auto simp: io_bind_def split: prod.splits sum.splits)

lemma resolve_calls [simp]: "resolve (w\<lparr>calls := c\<rparr>) p = resolve w p"
  by (simp add: resolve_def)

lemma stat_calls [simp]: "stat (w\<lparr>calls := c\<rparr>) p = stat w p"
  by (simp add: stat_def split: sum.splits)

lemma path_exists_calls [simp]: "path_exists (w\<lparr>calls := c\<rparr>) p = path_exists w p"
  by (simp add: path_exists_def)

lemma sublist_skip: "sublist xs ys \<Longrightarrow> sublist xs (zs @ ys)"
  by (metis append.assoc sublist_def)

lemma sublist_hit: "suffix k l \<Longrightarrow> prefix e l' \<Longrightarrow> sublist (k @ v @ e) (l @ v @ l' @ r)"
proof -
  assume "suffix k l" and "prefix e l'"
  then obtain s t where "l = s @ k" and "l' = e @ t"
    by (auto simp: suffix_def prefix_def)
  then have "l @ v @ l' @ r = s @ (k @ v @ e) @ (t @ r)" by simp
  then show ?thesis unfolding sublist_def by blast
qed


lemma walk_mono:
  "walk es cur cs = Inr r \<Longrightarrow> (\<And>q. es q = Some Dir \<Longrightarrow> es' q = Some Dir) \<Longrightarrow> walk es' cur cs = Inr r"
proof (induction cs arbitrary: cur)
  case Nil
  then show ?case by simp
next
  case (Cons c cs)
  from Cons.prems(1) have d: "es cur = Some Dir"
    by (auto split: option.splits inode.splits)
  then have d': "es' cur = Some Dir" by (rule Cons.prems(2))
  from Cons.prems(1) d d' Cons.IH Cons.prems(2) show ?case
    by (auto split: if_splits)
qed

lemma grows_refl [simp]: "grows w w"
  by (simp add: grows_def)

lemma grows_trans: "grows w w1 \<Longrightarrow> grows w1 w2 \<Longrightarrow> grows w w2"
proof -
  assume a: "grows w w1" and b: "grows w1 w2"
  have "cwd w2 = cwd w" using a b by (simp add: grows_def)
  moreover have "prefix (calls w) (calls w2)"
    using a b unfolding grows_def by (meson prefix_order.trans)
  moreover have "ents w q = Some Dir \<Longrightarrow> ents w2 q = Some Dir" for q
    using a b by (simp add: grows_def)
  moreover have "ents w q = Some (File c m) \<Longrightarrow> \<exists>c' m'. ents w2 q = Some (File c' m')" for q c m
  proof -
    assume "ents w q = Some (File c m)"
    with a obtain c1 m1 where "ents w1 q = Some (File c1 m1)" unfolding grows_def by blast
    with b show ?thesis unfolding grows_def by blast
  qed
  ultimately show ?thesis unfolding grows_def by blast
qed

lemma extends_refl [simp]: "extends w w"
  by (simp add: extends_def)

lemma extends_trans: "extends w w1 \<Longrightarrow> extends w1 w2 \<Longrightarrow> extends w w2"
  unfolding extends_def by simp

lemma extends_grows: "extends w w' \<Longrightarrow> prefix (calls w) (calls w') \<Longrightarrow> grows w w'"
  unfolding extends_def grows_def by simp

lemma resolve_extends: "extends w w' \<Longrightarrow> resolve w p = Inr q \<Longrightarrow> resolve w' p = Inr q"
proof -
  assume g: "extends w w'" and r: "resolve w p = Inr q"
  from r have ne: "p \<noteq> []" by (auto simp: resolve_def split: if_splits)
  from r ne have "walk (ents w) [] (split_sep (if prefix ''/'' p then p else cwd w @ ''/'' @ p)) = Inr q"
    by (simp add: resolve_def)
  then have "walk (ents w') [] (split_sep (if prefix ''/'' p then p else cwd w @ ''/'' @ p)) = Inr q"
    by (rule walk_mono) (use g in \<open>simp add: extends_def\<close>)
  moreover from g have "cwd w' = cwd w" by (simp add: extends_def)
  ultimately show ?thesis using ne by (cases "prefix ''/'' p") (simp_all add: resolve_def)
qed

lemma resolve_grows: "grows w w' \<Longrightarrow> resolve w p = Inr q \<Longrightarrow> resolve w' p = Inr q"
proof -
  assume g: "grows w w'" and r: "resolve w p = Inr q"
  from r have ne: "p \<noteq> []" by (auto simp: resolve_def split: if_splits)
  from r ne have "walk (ents w) [] (split_sep (if prefix ''/'' p then p else cwd w @ ''/'' @ p)) = Inr q"
    by (simp add: resolve_def)
  then have "walk (ents w') [] (split_sep (if prefix ''/'' p then p else cwd w @ ''/'' @ p)) = Inr q"
    by (rule walk_mono) (use g in \<open>simp add: grows_def\<close>)
  moreover from g have "cwd w' = cwd w" by (simp add: grows_def)
  ultimately show ?thesis using ne by (cases "prefix ''/'' p") (simp_all add: resolve_def)
qed

lemma path_isfile_grows: "grows w w' \<Longrightarrow> path_isfile w p \<Longrightarrow> path_isfile w' p"
proof -
  assume g: "grows w w'" and f: "path_isfile w p"
  from f obtain q c m where q: "resolve w p = Inr q" and e: "ents w q = Some (File c m)"
    by (auto simp: path_isfile_def stat_def split: sum.splits option.splits inode.splits)
  from g q have "resolve w' p = Inr q" by (rule resolve_grows)
  moreover from g e obtain c' m' where "ents w' q = Some (File c' m')"
    unfolding grows_def by blast
  ultimately show ?thesis by (simp add: path_isfile_def stat_def)
qed

lemma mkdir_extends: "extends w (snd (mkdir p w))"
  by (auto simp: mkdir_def extends_def split: sum.splits)

lemma makedirs_leaf_extends: "extends w (snd (makedirs_leaf name w))"
  using mkdir_extends [of w name]
  by (auto simp: makedirs_leaf_def split: prod.splits sum.splits)

lemma makedirs_extends: "extends w (snd (makedirs name w))"
proof (induction name w rule: makedirs.induct)
  case (1 name w)
  show ?case
  proof (cases "makedirs_head name \<noteq> [] \<and> makedirs_tail name \<noteq> []
         \<and> \<not> path_exists w (makedirs_head name)")
    case True
    then have ih: "extends w (snd (makedirs (makedirs_head name) w))" by (rule "1.IH")
    obtain r w1 where r: "makedirs (makedirs_head name) w = (r, w1)" by (cases "makedirs (makedirs_head name) w")
    with ih have e1: "extends w w1" by simp
    have e2: "extends w (snd (makedirs_leaf name w1))"
      using e1 makedirs_leaf_extends [of w1 name] by (rule extends_trans)
    show ?thesis
      using True r e1 e2 by (subst makedirs.simps) (auto split: sum.splits)
  next
    case False
    then show ?thesis
      using makedirs_leaf_extends [of w name] by (subst makedirs.simps) auto
  qed
qed


lemma resolve_ents_upd:
  "resolve w p = Inr r \<Longrightarrow> ents w q \<noteq> Some Dir \<Longrightarrow> cwd w' = cwd w \<Longrightarrow> ents w' = (ents w)(q := x)
     \<Longrightarrow> resolve w' p = Inr r"
proof -
  assume r: "resolve w p = Inr r" and nd: "ents w q \<noteq> Some Dir" and c: "cwd w' = cwd w"
    and e: "ents w' = (ents w)(q := x)"
  from r have ne: "p \<noteq> []" by (auto simp: resolve_def split: if_splits)
  from r ne have "walk (ents w) [] (split_sep (if prefix ''/'' p then p else cwd w @ ''/'' @ p)) = Inr r"
    by (simp add: resolve_def)
  then have "walk (ents w') [] (split_sep (if prefix ''/'' p then p else cwd w @ ''/'' @ p)) = Inr r"
    by (rule walk_mono) (use nd e in auto)
  then show ?thesis using ne c by (cases "prefix ''/'' p") (simp_all add: resolve_def)
qed

lemma read_file_ok:
  "resolve w p = Inr q \<Longrightarrow> ents w q = Some (File c m) \<Longrightarrow> read_file p w = (Inr c, w)"
  by (simp add: read_file_def)

lemma write_file_ok:
  "resolve w p = Inr q \<Longrightarrow> ents w q \<noteq> Some Dir \<Longrightarrow>
   write_file p c w = (Inr (), w\<lparr>ents := (ents w)(q \<mapsto> File c (clock w)), clock := Suc (clock w)\<rparr>)"
  by (simp add: write_file_def)

lemma copy2_ok:
  assumes s: "resolve w src = Inr p" and f: "ents w p = Some (File c m)"
    and d: "resolve w dst = Inr q" and nd: "ents w q \<noteq> Some Dir" and diff: "p \<noteq> q"
  shows "copy2 src dst w = (Inr (), w\<lparr>ents := (ents w)(q \<mapsto> File c m), clock := Suc (clock w)\<rparr>)"
proof -
  let ?w2 = "w\<lparr>ents := (ents w)(q \<mapsto> File c (clock w)), clock := Suc (clock w)\<rparr>"
  have notdir: "\<not> path_isdir w dst" using d nd by (simp add: path_isdir_def stat_def)
  have notsame: "\<not> samefile w src dst" using s d diff by (simp add: samefile_def)
  have cf: "copyfile src dst w = (Inr (), ?w2)"
    using notsame read_file_ok [OF s f] write_file_ok [OF d nd, of c]
    by (simp add: copyfile_def io_bind_def)
  have s2: "resolve ?w2 src = Inr p" using s nd by (rule resolve_ents_upd) simp_all
  have d2: "resolve ?w2 dst = Inr q" using d nd by (rule resolve_ents_upd) simp_all
  have "stat ?w2 src = Some (File c m)" using s2 f diff by (simp add: stat_def)
  then have cs: "copystat src dst ?w2 = (Inr (), ?w2\<lparr>ents := (ents ?w2)(q \<mapsto> File c m)\<rparr>)"
    using d2 by (simp add: copystat_def)
  show ?thesis using notdir cf cs by (simp add: copy2_def io_bind_def)
qed

lemma copy2_same_raises: "\<exists>e. fst (copy2 p p w) = Inl e"
proof (cases "path_isdir w p")
  case True
  then have "\<exists>e. fst (read_file p w) = Inl e"
    by (auto simp: path_isdir_def stat_def read_file_def split: sum.splits)
  then have "\<exists>e. fst (copyfile p (path_join p (basename p)) w) = Inl e"
    by (auto simp: copyfile_def io_bind_def split: prod.splits sum.splits)
  with True show ?thesis
    by (auto simp: copy2_def Let_def io_bind_def split: prod.splits sum.splits)
next
  case False
  have "\<exists>e. fst (copyfile p p w) = Inl e"
  proof (cases "samefile w p p")
    case True
    then show ?thesis by (simp add: copyfile_def)
  next
    case False
    then have "stat w p = None" by (simp add: samefile_def)
    then have "\<exists>e. fst (read_file p w) = Inl e"
      by (auto simp: stat_def read_file_def split: sum.splits)
    with False show ?thesis
      by (auto simp: copyfile_def io_bind_def split: prod.splits sum.splits)
  qed
  with False show ?thesis
    by (auto simp: copy2_def Let_def io_bind_def split: prod.splits sum.splits)
qed

lemma os_makedirs_extends: "extends w (snd (os_makedirs name w))"
proof -
  have "extends (w\<lparr>calls := calls w @ [Makedirs name]\<rparr>) (snd (makedirs name (w\<lparr>calls := calls w @ [Makedirs name]\<rparr>)))"
    by (rule makedirs_extends)
  then show ?thesis
    by (simp add: os_makedirs_def io_bind_def io_log_def extends_def)
qed

lemma mirror_dirs_keeps: "extends w (snd (mirror_dirs output_dir src w))"
  using os_makedirs_extends [of w "path_join output_dir (dirname src)"]
  by (simp add: mirror_dirs_def Let_def io_return_def)


lemma normpath_abs: "prefix ''/'' p \<Longrightarrow> prefix ''/'' (normpath p)"
  by (auto simp: normpath_def Let_def numeral_2_eq_2)

lemma path_join_abs: "prefix ''/'' b \<Longrightarrow> path_join a b = b"
  by (simp add: path_join_def)

lemma path_join_abs_left: "prefix ''/'' a \<Longrightarrow> prefix ''/'' (path_join a b)"
  by (cases a) (auto simp: path_join_def)

lemma image_src_parent:
  "prefix ''../'' src0 \<Longrightarrow> image_src input_dir src0 = normpath (path_join input_dir src0)"
  by (auto simp: image_src_def prefix_def)

lemma copy_images_step_parent_raises:
  assumes src: "map_of img ''src'' = Some src0" and par: "prefix ''../'' src0"
    and ab: "prefix ''/'' input_dir"
    and ex: "path_exists w (path_join input_dir (image_src input_dir src0))"
  shows "\<exists>e. fst (copy_images_step input_dir output_dir img w) = Inl e"
proof -
  let ?src = "image_src input_dir src0"
  from par have ne: "src0 \<noteq> []" by auto
  have "prefix ''/'' ?src"
    using par ab by (simp add: image_src_parent normpath_abs path_join_abs_left)
  then have j1: "path_join input_dir ?src = ?src" and j2: "path_join output_dir ?src = ?src"
    by (simp_all add: path_join_abs)
  let ?we = "w\<lparr>calls := calls w @ [Exists ?src]\<rparr>"
  have found: "os_path_exists ?src w = (Inr True, ?we)"
    using ex by (simp add: j1 os_path_exists_def io_bind_def io_log_def)
  obtain r w1 where md: "mirror_dirs output_dir ?src ?we = (r, w1)"
    by (cases "mirror_dirs output_dir ?src ?we")
  obtain e where "fst (copy2 ?src ?src (w1\<lparr>calls := calls w1 @ [Copy2 ?src ?src]\<rparr>)) = Inl e"
    using copy2_same_raises by blast
  then have "fst (shutil_copy2 ?src ?src w1) = Inl e"
    by (simp add: shutil_copy2_def io_bind_def io_log_def)
  then show ?thesis
    using src ne
    by (auto simp: copy_images_step_def Let_def io_bind_def found md j1 j2
        split: prod.splits sum.splits)
qed




lemma mkdir_calls: "calls (snd (mkdir p w)) = calls w"
  by (auto simp: mkdir_def split: sum.splits)

lemma makedirs_leaf_calls: "calls (snd (makedirs_leaf name w)) = calls w"
  using mkdir_calls [of name w]
  by (auto simp: makedirs_leaf_def split: prod.splits sum.splits)

lemma makedirs_calls: "calls (snd (makedirs name w)) = calls w"
proof (induction name w rule: makedirs.induct)
  case (1 name w)
  show ?case
  proof (cases "makedirs_head name \<noteq> [] \<and> makedirs_tail name \<noteq> []
         \<and> \<not> path_exists w (makedirs_head name)")
    case True
    then have ih: "calls (snd (makedirs (makedirs_head name) w)) = calls w" by (rule "1.IH")
    obtain r w1 where r: "makedirs (makedirs_head name) w = (r, w1)"
      by (cases "makedirs (makedirs_head name) w")
    with ih have e1: "calls w1 = calls w" by simp
    have e2: "calls (snd (makedirs_leaf name w1)) = calls w"
      using e1 makedirs_leaf_calls [of name w1] by simp
    show ?thesis
      using True r e1 e2 by (subst makedirs.simps) (auto split: sum.splits)
  next
    case False
    then show ?thesis
      using makedirs_leaf_calls [of name w] by (subst makedirs.simps) auto
  qed
qed



lemma split_sep_nonempty: "split_sep s \<noteq> []"
  by (induction s) (auto split: list.splits)

lemma split_sep_append_sep: "split_sep (a @ CHR ''/'' # b) = split_sep a @ split_sep b"
proof (induction a)
  case Nil
  show ?case by simp
next
  case (Cons c a)
  obtain x xs where x: "split_sep a = x # xs"
    using split_sep_nonempty [of a] by (cases "split_sep a") auto
  with Cons show ?case by simp
qed



lemma walk_append:
  "walk es cur (xs @ ys) = (case walk es cur xs of Inl e \<Rightarrow> Inl e | Inr c \<Rightarrow> walk es c ys)"
  by (induction xs arbitrary: cur) (auto split: option.splits inode.splits)



























lemma stepsD: "steps R m \<Longrightarrow> R w (snd (m w))"
  by (simp add: steps_def)

lemma steps_bind:
  assumes tr: "\<And>w w1 w2. R w w1 \<Longrightarrow> R w1 w2 \<Longrightarrow> R w w2"
    and m: "steps R m" and f: "\<And>a. steps R (f a)"
  shows "steps R (io_bind m f)"
  unfolding steps_def
proof
  fix w
  obtain r w1 where r: "m w = (r, w1)" by (cases "m w")
  with m have 1: "R w w1" by (auto simp: steps_def dest: spec [of _ w])
  show "R w (snd (io_bind m f w))"
  proof (cases r)
    case (Inl e)
    with r 1 show ?thesis by (simp add: io_bind_def)
  next
    case (Inr a)
    from f have "R w1 (snd (f a w1))" by (simp add: steps_def)
    with 1 have "R w (snd (f a w1))" by (rule tr)
    with r Inr show ?thesis by (simp add: io_bind_def)
  qed
qed

lemma grows_bind: "steps grows m \<Longrightarrow> (\<And>a. steps grows (f a)) \<Longrightarrow> steps grows (io_bind m f)"
  by (rule steps_bind [OF grows_trans])

lemma grows_return: "steps grows (io_return a)"
  by (simp add: steps_def io_return_def)

lemma grows_log: "steps grows (io_log c)"
  by (simp add: steps_def io_log_def grows_def)

lemma grows_read_file: "steps grows (read_file p)"
  by (auto simp: steps_def read_file_def split: sum.splits option.splits inode.splits)

lemma grows_write_file: "steps grows (write_file p c)"
  by (auto simp: steps_def write_file_def grows_def split: sum.splits)

lemma grows_copystat: "steps grows (copystat a b)"
  by (auto simp: steps_def copystat_def grows_def split: sum.splits option.splits inode.splits)

lemma grows_makedirs: "steps grows (makedirs name)"
  by (simp add: steps_def extends_grows makedirs_extends makedirs_calls)

lemma grows_copyfile: "steps grows (copyfile a b)"
proof -
  have "steps grows (io_bind (read_file a) (\<lambda>c. write_file b c))"
    by (intro grows_bind grows_read_file grows_write_file)
  then show ?thesis by (simp add: steps_def copyfile_def)
qed

lemma grows_copy2: "steps grows (copy2 a b)"
proof -
  have "steps grows (io_bind (copyfile a d) (\<lambda>_. copystat a d))" for d
    by (intro grows_bind grows_copyfile grows_copystat)
  then show ?thesis by (simp add: steps_def copy2_def Let_def)
qed

lemma grows_os_makedirs: "steps grows (os_makedirs name)"
  unfolding os_makedirs_def by (intro grows_bind grows_log grows_makedirs)

lemma grows_os_path_exists: "steps grows (os_path_exists p)"
  unfolding os_path_exists_def
  by (intro grows_bind grows_log) (simp add: steps_def)

lemma grows_shutil_copy2: "steps grows (shutil_copy2 a b)"
  unfolding shutil_copy2_def by (intro grows_bind grows_log grows_copy2)

lemma grows_raise: "steps grows (io_raise e)"
  by (simp add: steps_def io_raise_def)

lemma grows_open_read: "steps grows (open_read dec p)"
proof -
  have "steps grows (case dec bytes of None \<Rightarrow> io_raise UnicodeDecodeError
                     | Some text \<Rightarrow> io_return text)" for bytes
    by (cases "dec bytes") (simp_all add: grows_raise grows_return)
  then show ?thesis
    unfolding open_read_def by (intro grows_bind grows_log grows_read_file)
qed

lemma grows_open_write: "steps grows (open_write p c)"
  unfolding open_write_def by (intro grows_bind grows_log grows_write_file)

lemma grows_mirror_dirs: "steps grows (mirror_dirs d s)"
  by (simp add: mirror_dirs_def Let_def grows_os_makedirs grows_return)

lemma grows_copy_images_step: "steps grows (copy_images_step i d img)"
proof -
  have body: "steps grows (io_bind (os_path_exists p) (\<lambda>found.
                 if found then
                   io_bind (mirror_dirs d s) (\<lambda>_.
                   io_bind (shutil_copy2 p t) (\<lambda>_. io_return v))
                 else io_return img))" for p s t v
    by (intro grows_bind grows_os_path_exists)
       (simp add: grows_bind grows_mirror_dirs grows_shutil_copy2 grows_return)
  show ?thesis
    by (simp add: copy_images_step_def Let_def grows_return body split: option.splits)
qed

lemma grows_copy_images_loop_aux:
  "(\<And>k. k \<in> set ks \<Longrightarrow> steps grows (copy_images_node i d k))
     \<Longrightarrow> steps grows (copy_images_loop i d ks)"
proof (induction ks)
  case Nil
  show ?case by (simp add: steps_def)
next
  case (Cons k ks)
  have k: "steps grows (copy_images_node i d k)" by (rule Cons.prems) simp
  have ks: "steps grows (copy_images_loop i d ks)" by (rule Cons.IH) (simp add: Cons.prems)
  have "copy_images_loop i d (k # ks)
      = io_bind (copy_images_node i d k) (\<lambda>k'.
          io_bind (copy_images_loop i d ks) (\<lambda>ks'. io_return (k' # ks')))"
    by (rule ext) (simp add: io_bind_def io_return_def split: prod.splits sum.splits)
  then show ?case by (simp add: grows_bind k ks grows_return)
qed

lemma grows_copy_images_node: "steps grows (copy_images_node i d n)"
proof (induction n)
  case (Text s)
  show ?case by (simp add: steps_def)
next
  case (Element name attrs kids)
  have ks: "steps grows (copy_images_loop i d kids)"
    by (rule grows_copy_images_loop_aux) (rule Element.IH)
  have "copy_images_node i d (Element name attrs kids)
      = io_bind (if name = ''img'' then copy_images_step i d attrs else io_return attrs) (\<lambda>attrs'.
          io_bind (copy_images_loop i d kids) (\<lambda>kids'. io_return (Element name attrs' kids')))"
    by (rule ext) (simp add: io_bind_def io_return_def split: prod.splits sum.splits)
  then show ?case by (simp add: grows_bind ks grows_return grows_copy_images_step)
qed

lemma grows_copy_images_loop: "steps grows (copy_images_loop i d ks)"
  by (rule grows_copy_images_loop_aux) (rule grows_copy_images_node)

lemma grows_copy_images: "steps grows (copy_images lib h f d n)"
proof -
  have "steps grows (io_bind (os_makedirs d) (\<lambda>_.
           io_bind (copy_images_loop x d (soup_parse lib h)) (\<lambda>soup.
           io_return (soup_str lib soup))))" for x
    by (intro grows_bind grows_os_makedirs grows_copy_images_loop grows_return)
  then show ?thesis by (simp add: steps_def copy_images_def Let_def)
qed

lemma grows_pdfkit_from_file: "steps grows (pdfkit_from_file lib a b opts)"
proof -
  have inner: "steps grows (\<lambda>w. if \<not> wk_installed lib then (Inl IOError, w)
       else (case read_file a w of
            (Inl e, w') \<Rightarrow> (Inl IOError, w')
          | (Inr html, w') \<Rightarrow>
              (case wk_render lib (ents w') html opts of
                 None \<Rightarrow> (Inl IOError, w')
               | Some pdf \<Rightarrow>
                   (case write_file b pdf w' of
                      (Inl e, w'') \<Rightarrow> (Inl IOError, w'')
                    | (Inr u, w'') \<Rightarrow> (Inr u, w'')))))"
    unfolding steps_def
  proof
    fix w
    have r: "snd (read_file a w) = w"
      by (auto simp: read_file_def split: sum.splits option.splits inode.splits)
    have wf: "write_file b pdf w = (x, w2) \<Longrightarrow> grows w w2" for pdf x w2
      using stepsD [OF grows_write_file, of w b pdf] by simp
    show "grows w (snd (if \<not> wk_installed lib then (Inl IOError, w)
       else (case read_file a w of
            (Inl e, w') \<Rightarrow> (Inl IOError, w')
          | (Inr html, w') \<Rightarrow>
              (case wk_render lib (ents w') html opts of
                 None \<Rightarrow> (Inl IOError, w')
               | Some pdf \<Rightarrow>
                   (case write_file b pdf w' of
                      (Inl e, w'') \<Rightarrow> (Inl IOError, w'')
                    | (Inr u, w'') \<Rightarrow> (Inr u, w''))))))"
      using r wf
      by (cases "read_file a w") (auto split: sum.splits option.splits prod.splits)
  qed
  show ?thesis
    unfolding pdfkit_from_file_def by (intro grows_bind grows_log inner)
qed

lemma grows_convert_html_to_pdf: "steps grows (convert_html_to_pdf lib a b ps mg)"
  by (simp add: convert_html_to_pdf_def grows_pdfkit_from_file)

lemma grows_convert_markdown_to_html:
  "steps grows (convert_markdown_to_html lib f c1 c2 c3 c4 c5 c6)"
  unfolding convert_markdown_to_html_def
  by (intro grows_bind grows_open_read grows_return)


lemma keeps_bind: "keeps P m \<Longrightarrow> (\<And>a. keeps P (f a)) \<Longrightarrow> keeps P (io_bind m f)"
  unfolding keeps_def io_bind_def
  by (auto split: prod.splits sum.splits)

lemma keeps_isfile_grows: "steps grows m \<Longrightarrow> keeps (\<lambda>w. path_isfile w p) m"
  unfolding keeps_def by (auto intro: path_isfile_grows stepsD)

lemma resolve_simple_name:
  assumes r: "resolve w n = Inr q" and s: "split_sep n = [n]" and n: "n \<noteq> []" "n \<noteq> ''.''" "n \<noteq> ''..''"
  shows "q \<noteq> [] \<and> last q = n"
proof -
  from s n have np: "\<not> prefix ''/'' n" by (cases n) (auto split: if_splits)
  with r n have "walk (ents w) [] (split_sep (cwd w @ ''/'' @ n)) = Inr q"
    by (simp add: resolve_def)
  then have "walk (ents w) [] (split_sep (cwd w) @ [n]) = Inr q"
    using split_sep_append_sep [of "cwd w" n] s by simp
  then obtain c where "walk (ents w) c [n] = Inr q"
    by (auto simp: walk_append split: sum.splits)
  with n have "q = c @ [n]"
    by (auto split: option.splits inode.splits)
  then show ?thesis by simp
qed

lemma unlink_keeps_test_pdf:
  "keeps (\<lambda>w. path_isfile w ''test.pdf'') (unlink ''temp.html'')"
  unfolding keeps_def
proof (intro allI impI)
  fix w
  assume f: "path_isfile w ''test.pdf''"
  then obtain q0 c m where q0: "resolve w ''test.pdf'' = Inr q0" and e0: "ents w q0 = Some (File c m)"
    by (auto simp: path_isfile_def stat_def split: sum.splits option.splits inode.splits)
  have l0: "last q0 = ''test.pdf''"
    using resolve_simple_name [OF q0] by simp
  show "path_isfile (snd (unlink ''temp.html'' w)) ''test.pdf''"
  proof (cases "\<exists>q c' m'. resolve w ''temp.html'' = Inr q \<and> ents w q = Some (File c' m')")
    case False
    then have "snd (unlink ''temp.html'' w) = w"
      by (auto simp: unlink_def split: sum.splits option.splits inode.splits)
    with f show ?thesis by simp
  next
    case True
    then obtain q c' m' where q: "resolve w ''temp.html'' = Inr q" and e: "ents w q = Some (File c' m')"
      by blast
    have "last q = ''temp.html''" using resolve_simple_name [OF q] by simp
    with l0 have diff: "q0 \<noteq> q" by auto
    have w': "snd (unlink ''temp.html'' w) = w\<lparr>ents := (ents w)(q := None)\<rparr>"
      using q e by (simp add: unlink_def)
    have "resolve (w\<lparr>ents := (ents w)(q := None)\<rparr>) ''test.pdf'' = Inr q0"
      using q0 by (rule resolve_ents_upd [where q = q and x = None]) (simp_all add: e)
    then show ?thesis using e0 diff by (simp add: w' path_isfile_def stat_def)
  qed
qed

lemma os_remove_keeps_test_pdf:
  "keeps (\<lambda>w. path_isfile w ''test.pdf'') (os_remove ''temp.html'')"
  unfolding os_remove_def
  by (intro keeps_bind keeps_isfile_grows grows_log unlink_keeps_test_pdf)

lemma dispatch_keeps_test_pdf: "keeps (\<lambda>w. path_isfile w ''test.pdf'') (dispatch lib a)"
proof -
  let ?P = "\<lambda>w. path_isfile w ''test.pdf''"
  have pdf: "keeps ?P
      (io_bind (copy_images lib h (input a) d (no_images a)) (\<lambda>html_content.
       io_bind (open_write ''temp.html'' html_content) (\<lambda>_.
       io_bind (convert_html_to_pdf lib ''temp.html'' out (page_size a) (margin a)) (\<lambda>_.
       os_remove ''temp.html''))))" for h d out
    by (intro keeps_bind keeps_isfile_grows grows_copy_images grows_open_write
        grows_convert_html_to_pdf os_remove_keeps_test_pdf)
  have html: "keeps ?P
      (io_bind (copy_images lib h (input a) d (no_images a)) (\<lambda>html_content.
       open_write out html_content))" for h d out
    by (intro keeps_bind keeps_isfile_grows grows_copy_images grows_open_write)
  have md: "keeps ?P (convert_markdown_to_html lib f c1 c2 c3 c4 c5 c6)" for f c1 c2 c3 c4 c5 c6
    by (intro keeps_isfile_grows grows_convert_markdown_to_html)
  have rd: "keeps ?P (open_read dec f)" for dec f
    by (intro keeps_isfile_grows grows_open_read)
  show ?thesis
    unfolding keeps_def
  proof (intro allI impI)
    fix w
    assume p: "path_isfile w ''test.pdf''"
    show "path_isfile (snd (dispatch lib a w)) ''test.pdf''"
    proof (cases "command a")
      case None
      with p show ?thesis by (simp add: dispatch_def)
    next
      case (Some c)
      show ?thesis
      proof (cases c)
      case MdToPdf
      have "keeps ?P (io_bind (convert_markdown_to_html lib (input a) (bg_color a) (text_color a)
                         (heading_color a) (link_color a) (code_bg a) (border_color a)) (\<lambda>h.
              io_bind (copy_images lib h (input a) d (no_images a)) (\<lambda>html_content.
              io_bind (open_write ''temp.html'' html_content) (\<lambda>_.
              io_bind (convert_html_to_pdf lib ''temp.html'' out (page_size a) (margin a)) (\<lambda>_.
              os_remove ''temp.html'')))))" for d out
        by (intro keeps_bind md pdf)
      with p Some MdToPdf show ?thesis by (simp add: dispatch_def Let_def keeps_def)
    next
      case MdToHtml
      have "keeps ?P (io_bind (convert_markdown_to_html lib (input a) (bg_color a) (text_color a)
                         (heading_color a) (link_color a) (code_bg a) (border_color a)) (\<lambda>h.
              io_bind (copy_images lib h (input a) d (no_images a)) (\<lambda>html_content.
              open_write out html_content)))" for d out
        by (intro keeps_bind md html)
      with p Some MdToHtml show ?thesis by (simp add: dispatch_def Let_def keeps_def)
    next
      case HtmlToPdf
      have "keeps ?P (io_bind (open_read (utf8_decode lib) (input a)) (\<lambda>h.
              io_bind (copy_images lib h (input a) d (no_images a)) (\<lambda>html_content.
              io_bind (open_write ''temp.html'' html_content) (\<lambda>_.
              io_bind (convert_html_to_pdf lib ''temp.html'' out (page_size a) (margin a)) (\<lambda>_.
              os_remove ''temp.html'')))))" for d out
        by (intro keeps_bind rd pdf)
      with p Some HtmlToPdf show ?thesis by (simp add: dispatch_def Let_def keeps_def)
      qed
    qed
  qed
qed

lemma write_file_isfile: "write_file p c w = (Inr (), w') \<Longrightarrow> path_isfile w' p"
proof -
  assume m: "write_file p c w = (Inr (), w')"
  then obtain q where q: "resolve w p = Inr q" and nd: "ents w q \<noteq> Some Dir"
    and w': "w' = w\<lparr>ents := (ents w)(q \<mapsto> File c (clock w)), clock := Suc (clock w)\<rparr>"
    by (auto simp: write_file_def split: sum.splits if_splits)
  have "resolve w' p = Inr q"
    using q nd by (rule resolve_ents_upd [where x = "Some (File c (clock w))"]) (simp_all add: w')
  then show ?thesis by (simp add: path_isfile_def stat_def w')
qed

lemma probe_writes_test_pdf:
  "fst (probe lib w) = Inr () \<Longrightarrow> path_isfile (snd (probe lib w)) ''test.pdf''"
proof -
  assume ok: "fst (probe lib w) = Inr ()"
  let ?w = "w\<lparr>calls := calls w @ [Wkhtmltopdf ''test.pdf'']\<rparr>"
  obtain r w1 where r: "pdfkit_from_string lib [] ''test.pdf'' w = (r, w1)"
    by (cases "pdfkit_from_string lib [] ''test.pdf'' w")
  have pr: "probe lib w = (Inr (), w1)" and rr: "r = Inr ()"
    using ok r
    by (auto simp: probe_def io_bind_def print_def io_raise_def split: sum.splits if_splits)
  from r rr obtain pdf where "write_file ''test.pdf'' pdf ?w = (Inr (), w1)"
    by (auto simp: pdfkit_from_string_def io_bind_def io_log_def
        split: if_splits option.splits prod.splits sum.splits)
  then have "path_isfile w1 ''test.pdf''" by (rule write_file_isfile)
  with pr show ?thesis by simp
qed

lemma os_remove_gone: "os_remove p w = (Inr (), w') \<Longrightarrow> \<not> path_exists w' p"
proof -
  assume m: "os_remove p w = (Inr (), w')"
  let ?w = "w\<lparr>calls := calls w @ [Remove p]\<rparr>"
  from m have u: "unlink p ?w = (Inr (), w')"
    by (simp add: os_remove_def io_bind_def io_log_def)
  then obtain q c mt where q: "resolve ?w p = Inr q" and e: "ents ?w q = Some (File c mt)"
    and w': "w' = ?w\<lparr>ents := (ents ?w)(q := None)\<rparr>"
    by (auto simp: unlink_def split: sum.splits option.splits inode.splits)
  from e have e': "ents w q = Some (File c mt)" by simp
  have "resolve w' p = Inr q"
    using q by (rule resolve_ents_upd [where q = q and x = None]) (simp_all add: e' w')
  then show ?thesis by (simp add: path_exists_def stat_def w')
qed


lemma for_img_tags_append:
  "for_img_tags i d (xs @ ys) w =
     (case for_img_tags i d xs w of
        (Inl e, w1) \<Rightarrow> (Inl e, w1)
      | (Inr xs', w1) \<Rightarrow>
          (case for_img_tags i d ys w1 of
             (Inl e, w2) \<Rightarrow> (Inl e, w2)
           | (Inr ys', w2) \<Rightarrow> (Inr (xs' @ ys'), w2)))"
  by (induction xs arbitrary: w) (auto split: prod.splits sum.splits)

lemma copy_images_loop_is_for_aux:
  "(\<And>k w. k \<in> set ks \<Longrightarrow>
      found_imgs (find_all ''img'') (copy_images_node i d k w) = for_img_tags i d (find_all ''img'' k) w)
   \<Longrightarrow> found_imgs (find_all_list ''img'') (copy_images_loop i d ks w)
        = for_img_tags i d (find_all_list ''img'' ks) w"
proof (induction ks arbitrary: w)
  case Nil
  show ?case by (simp add: found_imgs_def)
next
  case (Cons k ks)
  obtain rk wk where nk: "copy_images_node i d k w = (rk, wk)"
    by (cases "copy_images_node i d k w")
  have "found_imgs (find_all ''img'') (copy_images_node i d k w) = for_img_tags i d (find_all ''img'' k) w"
    by (rule Cons.prems) simp
  then have fk: "for_img_tags i d (find_all ''img'' k) w = found_imgs (find_all ''img'') (rk, wk)"
    by (simp add: nk)
  obtain rs ws where ns: "copy_images_loop i d ks wk = (rs, ws)"
    by (cases "copy_images_loop i d ks wk")
  have "found_imgs (find_all_list ''img'') (copy_images_loop i d ks wk)
      = for_img_tags i d (find_all_list ''img'' ks) wk"
    by (rule Cons.IH) (simp add: Cons.prems)
  then have fs: "for_img_tags i d (find_all_list ''img'' ks) wk = found_imgs (find_all_list ''img'') (rs, ws)"
    by (simp add: ns)
  show ?case
  proof (cases rk)
    case (Inl e)
    then show ?thesis by (simp add: nk fk for_img_tags_append found_imgs_def)
  next
    case (Inr k')
    then show ?thesis
      by (cases rs) (simp_all add: nk ns fk fs for_img_tags_append found_imgs_def)
  qed
qed

lemma copy_images_node_is_for:
  "found_imgs (find_all ''img'') (copy_images_node i d n w) = for_img_tags i d (find_all ''img'' n) w"
proof (induction n arbitrary: w)
  case (Text s)
  show ?case by (simp add: found_imgs_def)
next
  case (Element name attrs kids)
  have ks: "found_imgs (find_all_list ''img'') (copy_images_loop i d kids w')
      = for_img_tags i d (find_all_list ''img'' kids) w'" for w'
    by (rule copy_images_loop_is_for_aux) (rule Element.IH)
  obtain ra wa where st: "(if name = ''img'' then copy_images_step i d attrs w else (Inr attrs, w)) = (ra, wa)"
    by (cases "if name = ''img'' then copy_images_step i d attrs w else (Inr attrs, w)")
  obtain rs ws where ns: "copy_images_loop i d kids wa = (rs, ws)"
    by (cases "copy_images_loop i d kids wa")
  have fs: "for_img_tags i d (find_all_list ''img'' kids) wa = found_imgs (find_all_list ''img'') (rs, ws)"
    using ks [of wa] by (simp add: ns)
  show ?case
  proof (cases "name = ''img''")
    case True
    with st have s: "copy_images_step i d attrs w = (ra, wa)" by simp
    show ?thesis
      using True
      by (cases ra; cases rs) (simp_all add: s ns fs found_imgs_def)
  next
    case False
    with st have wa: "wa = w" by simp
    have ns': "copy_images_loop i d kids w = (rs, ws)" using ns by (simp add: wa)
    have fs': "for_img_tags i d (find_all_list ''img'' kids) w
        = found_imgs (find_all_list ''img'') (rs, ws)"
      using fs by (simp add: wa)
    show ?thesis
      using False by (cases rs) (simp_all add: ns' fs' found_imgs_def)
  qed
qed

lemma copy_images_loop_is_for:
  "found_imgs (find_all_list ''img'') (copy_images_loop i d ks w)
     = for_img_tags i d (find_all_list ''img'' ks) w"
  by (rule copy_images_loop_is_for_aux) (rule copy_images_node_is_for)


lemma probe_succeeds_iff:
  "fst (probe lib w) = Inr () \<longleftrightarrow>
     wk_installed lib
     \<and> (\<exists>pdf. wk_render lib (ents w) [] [] = Some pdf)
     \<and> (\<exists>q. resolve w ''test.pdf'' = Inr q \<and> ents w q \<noteq> Some Dir)"
  by (auto simp: probe_def pdfkit_from_string_def io_bind_def io_log_def write_file_def
      print_def io_raise_def split: option.splits sum.splits prod.splits if_splits)


section \<open>The skip flag\<close>

text \<open>
  Claim C5. With the skip flag set (\<^verbatim>\<open>--no-images\<close>), \<^verbatim>\<open>copy_images\<close> returns the HTML it was
  given, byte for byte, and the world is the one it started in: no entry of the file
  system has changed and no call has been added to the list of file-system calls (no
  existence check, no directory creation, no copy).
\<close>

theorem copy_images_skip:
  "copy_images lib html_content input_file output_dir True w = (Inr html_content, w)"
  by (simp add: copy_images_def)


section \<open>Image elements without a source, and sources that do not exist\<close>

text \<open>
  \<open>copy_images_step\<close> is the body of the loop of \<^verbatim>\<open>copy_images\<close>: it runs once for every
  \<open>img\<close> element of the document, in document order, in the world the earlier turns have
  left (lemma \<open>copy_images_loop_is_for\<close>). A statement about it for every list of
  attributes and every world is a statement about every image element of every document.

  Claim C10. For an image element whose \<open>src\<close> attribute is absent or is the empty string,
  the turn of the loop returns the attributes as they were and leaves the world as it
  was: no file-system call is made for it.
\<close>

theorem copy_images_step_no_src:
  "map_of img ''src'' = None \<or> map_of img ''src'' = Some [] \<Longrightarrow>
   copy_images_step input_dir output_dir img w = (Inr img, w)"
  by (auto simp: copy_images_step_def io_return_def)

theorem copy_images_step_no_src_witness:
  "copy_images_step ''/w/doc'' ''/w/out'' [(''alt'', ''logo'')] world0
     = (Inr [(''alt'', ''logo'')], world0)
   \<and> copy_images_step ''/w/doc'' ''/w/out'' [(''alt'', ''logo''), (''src'', [])] world0
     = (Inr [(''alt'', ''logo''), (''src'', [])], world0)"
proof -
  have absent: "map_of [(''alt'', ''logo'')] ''src'' = None" by simp
  have empty: "map_of [(''alt'', ''logo''), (''src'', [])] ''src'' = Some []" by simp
  show ?thesis
    using copy_images_step_no_src [of "[(''alt'', ''logo'')]" "''/w/doc''" "''/w/out''" world0]
      copy_images_step_no_src [of "[(''alt'', ''logo''), (''src'', [])]" "''/w/doc''" "''/w/out''" world0]
      absent empty
    by blast
qed

text \<open>
  Claim C4. For an image element whose source, resolved against the directory of the
  input document, does not exist, the turn of the loop raises nothing, returns the
  attributes unchanged (the \<open>src\<close> attribute keeps the string it had, also when it began
  with \<open>./\<close> or \<open>../\<close>), and changes no entry of the file system: the only call made is the
  existence check.
\<close>

theorem copy_images_step_missing:
  assumes "map_of img ''src'' = Some src0"
    and "src0 \<noteq> []"
    and "\<not> path_exists w (path_join input_dir (image_src input_dir src0))"
  shows "copy_images_step input_dir output_dir img w
           = (Inr img, w\<lparr>calls := calls w @ [Exists (path_join input_dir (image_src input_dir src0))]\<rparr>)"
  using assms
  by (simp add: copy_images_step_def Let_def io_bind_def io_return_def io_log_def
      os_path_exists_def)

theorem copy_images_step_missing_witness:
  "copy_images_step ''/w/doc'' ''/w/out'' [(''src'', ''./img/gone.png'')] world0
     = (Inr [(''src'', ''./img/gone.png'')],
        world0\<lparr>calls := calls world0 @ [Exists ''/w/doc/img/gone.png'']\<rparr>)"
proof -
  have src: "map_of [(''src'', ''./img/gone.png'')] ''src'' = Some ''./img/gone.png''" by simp
  have path: "path_join ''/w/doc'' (image_src ''/w/doc'' ''./img/gone.png'') = ''/w/doc/img/gone.png''"
    by code_simp
  have gone: "\<not> path_exists world0 (path_join ''/w/doc'' (image_src ''/w/doc'' ''./img/gone.png''))"
    by code_simp
  show ?thesis
    using copy_images_step_missing [OF src _ gone, of "''/w/out''"] by (simp add: path)
qed



section \<open>The colours of the template\<close>

lemma sublist_start: "suffix k l \<Longrightarrow> prefix xs ys \<Longrightarrow> sublist (k @ xs) (l @ ys)"
proof -
  assume "suffix k l" and "prefix xs ys"
  then obtain s t where "l = s @ k" and "ys = xs @ t"
    by (auto simp: suffix_def prefix_def)
  then have "l @ ys = s @ (k @ xs) @ t" by simp
  then show ?thesis unfolding sublist_def by blast
qed

lemma sublist_trans: "sublist xs ys \<Longrightarrow> sublist ys zs \<Longrightarrow> sublist xs zs"
  by (rule sublist_order.order.trans)

text \<open>
  Claim C6. Whatever the document and the six colour strings are, the text
  \<^verbatim>\<open>generate_html_template\<close> returns is the head of the page up to the opening \<open><style>\<close> tag,
  a style sheet \<open>css\<close>, and from the closing \<open></style>\<close> tag on the rest of the page with the
  document in its body. Inside that style sheet each colour is spliced in unchanged, in
  the rule and the declaration that use it: the background and the text colour in the
  rule of \<open>body\<close>, the heading colour in the rule of \<open>h1\<close> to \<open>h6\<close>, the link colour in the
  rule of \<open>a\<close>, the code background in the rules of \<open>code\<close>, \<open>pre\<close> and \<open>th\<close>, the border
  colour in the rule of \<open>th, td\<close>, and the text and the border colour in the rule of
  \<open>blockquote\<close>. Each rule is given from the start of its line. With the background
  colour \<open>#000000\<close> the page contains \<open>background-color: #000000;\<close> (the witness).
\<close>

theorem generate_html_template_colors:
  \<open>\<exists>css.
     generate_html_template html bg tx hc lk cb bd =
       ''\<newline>    <!DOCTYPE html>\<newline>    <html>\<newline>    <head>\<newline>        <meta charset="UTF-8">\<newline>        <style>''
       @ css @
       ''</style>\<newline>    </head>\<newline>    <body>\<newline>        ''
       @ html @
       ''\<newline>    </body>\<newline>    </html>\<newline>    ''
   \<and> sublist
        (''            body {\<newline>'' @
         ''                font-family: -apple-system, BlinkMacSystemFont, "Segoe UI", Roboto, "Helvetica Neue", Arial, sans-serif;\<newline>'' @
         ''                line-height: 1.6;\<newline>'' @
         ''                max-width: 800px;\<newline>'' @
         ''                margin: 0 auto;\<newline>'' @
         ''                padding: 20px;\<newline>'' @
         ''                background-color: '' @
         bg @
         '';\<newline>'' @
         ''                color: '' @
         tx @
         '';\<newline>'' @
         ''            }'')
        css
   \<and> sublist
        (''            h1, h2, h3, h4, h5, h6 {\<newline>'' @
         ''                color: '' @
         hc @
         '';'')
        css
   \<and> sublist
        (''            a {\<newline>'' @
         ''                color: '' @
         lk @
         '';'')
        css
   \<and> sublist
        (''            code {\<newline>'' @
         ''                background-color: '' @
         cb @
         '';'')
        css
   \<and> sublist
        (''            pre {\<newline>'' @
         ''                background-color: '' @
         cb @
         '';'')
        css
   \<and> sublist
        (''            th, td {\<newline>'' @
         ''                border: 1px solid '' @
         bd @
         '';'')
        css
   \<and> sublist
        (''            th {\<newline>'' @
         ''                background-color: '' @
         cb @
         '';'')
        css
   \<and> sublist
        (''            blockquote {\<newline>'' @
         ''                padding: 0 1em;\<newline>'' @
         ''                color: '' @
         tx @
         '';\<newline>'' @
         ''                border-left: 0.25em solid '' @
         bd @
         '';'')
        css\<close>
proof -
  define css where
    \<open>css =
        ''\<newline>'' @
        ''            body {\<newline>'' @
        ''                font-family: -apple-system, BlinkMacSystemFont, "Segoe UI", Roboto, "Helvetica Neue", Arial, sans-serif;\<newline>'' @
        ''                line-height: 1.6;\<newline>'' @
        ''                max-width: 800px;\<newline>'' @
        ''                margin: 0 auto;\<newline>'' @
        ''                padding: 20px;\<newline>'' @
        ''                background-color: '' @
        bg @
        '';\<newline>'' @
        ''                color: '' @
        tx @
        '';\<newline>'' @
        ''            }\<newline>'' @
        ''            h1, h2, h3, h4, h5, h6 {\<newline>'' @
        ''                color: '' @
        hc @
        '';\<newline>'' @
        ''                margin-top: 24px;\<newline>'' @
        ''                margin-bottom: 16px;\<newline>'' @
        ''                font-weight: 600;\<newline>'' @
        ''                line-height: 1.25;\<newline>'' @
        ''            }\<newline>'' @
        ''            a {\<newline>'' @
        ''                color: '' @
        lk @
        '';\<newline>'' @
        ''                text-decoration: none;\<newline>'' @
        ''            }\<newline>'' @
        ''            a:hover {\<newline>'' @
        ''                text-decoration: underline;\<newline>'' @
        ''            }\<newline>'' @
        ''            code {\<newline>'' @
        ''                background-color: '' @
        cb @
        '';\<newline>'' @
        ''                padding: 0.2em 0.4em;\<newline>'' @
        ''                border-radius: 3px;\<newline>'' @
        ''                font-family: "SFMono-Regular", Consolas, "Liberation Mono", Menlo, monospace;\<newline>'' @
        ''            }\<newline>'' @
        ''            pre {\<newline>'' @
        ''                background-color: '' @
        cb @
        '';\<newline>'' @
        ''                padding: 16px;\<newline>'' @
        ''                border-radius: 6px;\<newline>'' @
        ''                overflow: auto;\<newline>'' @
        ''            }\<newline>'' @
        ''            pre code {\<newline>'' @
        ''                background-color: transparent;\<newline>'' @
        ''                padding: 0;\<newline>'' @
        ''            }\<newline>'' @
        ''            img {\<newline>'' @
        ''                max-width: 100%;\<newline>'' @
        ''                height: auto;\<newline>'' @
        ''                display: block;\<newline>'' @
        ''                margin: 0 auto;\<newline>'' @
        ''            }\<newline>'' @
        ''            table {\<newline>'' @
        ''                border-collapse: collapse;\<newline>'' @
        ''                width: 100%;\<newline>'' @
        ''                margin-bottom: 16px;\<newline>'' @
        ''            }\<newline>'' @
        ''            th, td {\<newline>'' @
        ''                border: 1px solid '' @
        bd @
        '';\<newline>'' @
        ''                padding: 6px 13px;\<newline>'' @
        ''            }\<newline>'' @
        ''            th {\<newline>'' @
        ''                background-color: '' @
        cb @
        '';\<newline>'' @
        ''            }\<newline>'' @
        ''            blockquote {\<newline>'' @
        ''                padding: 0 1em;\<newline>'' @
        ''                color: '' @
        tx @
        '';\<newline>'' @
        ''                border-left: 0.25em solid '' @
        bd @
        '';\<newline>'' @
        ''                margin: 0 0 16px 0;\<newline>'' @
        ''            }\<newline>'' @
        ''        ''\<close>
  have split: \<open>generate_html_template html bg tx hc lk cb bd =
       ''\<newline>    <!DOCTYPE html>\<newline>    <html>\<newline>    <head>\<newline>        <meta charset="UTF-8">\<newline>        <style>''
       @ css @
       ''</style>\<newline>    </head>\<newline>    <body>\<newline>        ''
       @ html @
       ''\<newline>    </body>\<newline>    </html>\<newline>    ''\<close>
    by (simp add: generate_html_template_def css_def)
  have r_body: \<open>sublist
        (''            body {\<newline>'' @
         ''                font-family: -apple-system, BlinkMacSystemFont, "Segoe UI", Roboto, "Helvetica Neue", Arial, sans-serif;\<newline>'' @
         ''                line-height: 1.6;\<newline>'' @
         ''                max-width: 800px;\<newline>'' @
         ''                margin: 0 auto;\<newline>'' @
         ''                padding: 20px;\<newline>'' @
         ''                background-color: '' @
         bg @
         '';\<newline>'' @
         ''                color: '' @
         tx @
         '';\<newline>'' @
         ''            }'')
        css\<close>
    unfolding css_def
    by ((rule sublist_start, (simp add: suffix_Cons; fail), (simp; fail)) | rule sublist_skip)+
  have r_headings: \<open>sublist
        (''            h1, h2, h3, h4, h5, h6 {\<newline>'' @
         ''                color: '' @
         hc @
         '';'')
        css\<close>
    unfolding css_def
    by ((rule sublist_start, (simp add: suffix_Cons; fail), (simp; fail)) | rule sublist_skip)+
  have r_link: \<open>sublist
        (''            a {\<newline>'' @
         ''                color: '' @
         lk @
         '';'')
        css\<close>
    unfolding css_def
    by ((rule sublist_start, (simp add: suffix_Cons; fail), (simp; fail)) | rule sublist_skip)+
  have r_code: \<open>sublist
        (''            code {\<newline>'' @
         ''                background-color: '' @
         cb @
         '';'')
        css\<close>
    unfolding css_def
    by ((rule sublist_start, (simp add: suffix_Cons; fail), (simp; fail)) | rule sublist_skip)+
  have r_pre: \<open>sublist
        (''            pre {\<newline>'' @
         ''                background-color: '' @
         cb @
         '';'')
        css\<close>
    unfolding css_def
    by ((rule sublist_start, (simp add: suffix_Cons; fail), (simp; fail)) | rule sublist_skip)+
  have r_cells: \<open>sublist
        (''            th, td {\<newline>'' @
         ''                border: 1px solid '' @
         bd @
         '';'')
        css\<close>
    unfolding css_def
    by ((rule sublist_start, (simp add: suffix_Cons; fail), (simp; fail)) | rule sublist_skip)+
  have r_th: \<open>sublist
        (''            th {\<newline>'' @
         ''                background-color: '' @
         cb @
         '';'')
        css\<close>
    unfolding css_def
    by ((rule sublist_start, (simp add: suffix_Cons; fail), (simp; fail)) | rule sublist_skip)+
  have r_blockquote: \<open>sublist
        (''            blockquote {\<newline>'' @
         ''                padding: 0 1em;\<newline>'' @
         ''                color: '' @
         tx @
         '';\<newline>'' @
         ''                border-left: 0.25em solid '' @
         bd @
         '';'')
        css\<close>
    unfolding css_def
    by ((rule sublist_start, (simp add: suffix_Cons; fail), (simp; fail)) | rule sublist_skip)+
  from split r_body r_headings r_link r_code r_pre r_cells r_th r_blockquote show ?thesis by blast
qed

theorem generate_html_template_colors_witness:
  "sublist ''background-color: #000000;''
     (generate_html_template ''<h1>Title</h1>'' ''#000000'' ''#c9d1d9'' ''#e6f1ff'' ''#58a6ff''
        ''#161b22'' ''#30363d'')"
proof -
  let ?page = "generate_html_template ''<h1>Title</h1>'' ''#000000'' ''#c9d1d9'' ''#e6f1ff''
      ''#58a6ff'' ''#161b22'' ''#30363d''"
  let ?body = \<open>''            body {\<newline>'' @
         ''                font-family: -apple-system, BlinkMacSystemFont, "Segoe UI", Roboto, "Helvetica Neue", Arial, sans-serif;\<newline>'' @
         ''                line-height: 1.6;\<newline>'' @
         ''                max-width: 800px;\<newline>'' @
         ''                margin: 0 auto;\<newline>'' @
         ''                padding: 20px;\<newline>'' @
         ''                background-color: '' @
         ''#000000'' @
         '';\<newline>'' @
         ''                color: '' @
         ''#c9d1d9'' @
         '';\<newline>'' @
         ''            }''\<close>
  obtain css pre post where page: "?page = pre @ css @ post" and body: "sublist ?body css"
    using generate_html_template_colors [of "''<h1>Title</h1>''" "''#000000''" "''#c9d1d9''"
        "''#e6f1ff''" "''#58a6ff''" "''#161b22''" "''#30363d''"]
    by blast
  have "sublist (''background-color: '' @ ''#000000'' @ '';'') ?body"
    by ((rule sublist_start, (simp add: suffix_Cons; fail), (simp; fail)) | rule sublist_skip)+
  then have "sublist ''background-color: #000000;'' ?body" by simp
  then have "sublist ''background-color: #000000;'' css" using body by (rule sublist_trans)
  moreover have "sublist css ?page" unfolding page by (rule sublist_appendI)
  ultimately show ?thesis by (rule sublist_trans)
qed


section \<open>The probe for the renderer\<close>

text \<open>
  Claim C7, as the code has it. The first statement of \<^verbatim>\<open>main\<close> parses the command line; the
  probe is the second. For every command line that \<^verbatim>\<open>argparse\<close> accepts (whatever the
  subcommand and the options, and also without a subcommand): when \<^verbatim>\<open>wkhtmltopdf\<close> is not
  installed, the run ends in the probe. The one call made is the probe's, the four lines
  of the diagnostic with the install instructions for Ubuntu/Debian, macOS and Windows
  are printed, and the process exits with status 1. Nothing else in the world changes.
\<close>

theorem main_renderer_missing:
  "argparse argv = Parsed a \<Longrightarrow> \<not> wk_installed lib \<Longrightarrow>
   main argparse lib argv w =
     (Inl (SystemExit 1),
      w\<lparr>calls := calls w @ [Wkhtmltopdf ''test.pdf''],
        stdout := stdout w @
          [''Error: wkhtmltopdf is not installed. Please install it first.'',
           ''On Ubuntu/Debian: sudo apt-get install wkhtmltopdf'',
           ''On macOS: brew install wkhtmltopdf'',
           ''On Windows: Download from https://wkhtmltopdf.org/downloads.html'']\<rparr>)"
  by (simp add: main_def parse_arguments_def io_return_def probe_def pdfkit_from_string_def
      io_bind_def io_log_def print_def io_raise_def)

theorem main_renderer_missing_witness:
  "fst (main argparse0 lib_absent [''html-to-pdf'', ''doc/README.md'', ''--no-images''] world0)
     = Inl (SystemExit 1)
   \<and> stdout (snd (main argparse0 lib_absent [''html-to-pdf'', ''doc/README.md'', ''--no-images'']
         world0)) =
       [''Error: wkhtmltopdf is not installed. Please install it first.'',
        ''On Ubuntu/Debian: sudo apt-get install wkhtmltopdf'',
        ''On macOS: brew install wkhtmltopdf'',
        ''On Windows: Download from https://wkhtmltopdf.org/downloads.html'']"
proof -
  have parsed: "argparse0 [''html-to-pdf'', ''doc/README.md'', ''--no-images''] = Parsed args0"
    by (simp add: argparse0_def)
  have absent: "\<not> wk_installed lib_absent" by (simp add: lib_absent_def)
  have out: "stdout world0 = []" by (simp add: world0_def)
  show ?thesis
    using main_renderer_missing [where argparse = argparse0 and a = args0 and lib = lib_absent
        and argv = "[''html-to-pdf'', ''doc/README.md'', ''--no-images'']" and w = world0]
      parsed absent
    by (simp add: out)
qed

text \<open>
  The claim as the specification states it, for every invocation, does not hold: a
  command line that \<^verbatim>\<open>argparse\<close> ends itself never reaches the probe. On a machine without
  \<^verbatim>\<open>wkhtmltopdf\<close>, \<^verbatim>\<open>md2pdf.py --help\<close> prints the help text and exits with status 0, and a
  command line that is rejected exits with status 2; in both runs no probe is made and no
  line of the diagnostic is printed.
\<close>

theorem main_help_counterexample:
  "\<not> wk_installed lib_absent
   \<and> fst (main argparse0 lib_absent [''--help''] world0) = Inl (SystemExit 0)
   \<and> calls (snd (main argparse0 lib_absent [''--help''] world0)) = []
   \<and> stdout (snd (main argparse0 lib_absent [''--help''] world0)) = [help_text]
   \<and> fst (main argparse0 lib_absent [''md-to-docx'', ''doc/README.md''] world0) = Inl (SystemExit 2)
   \<and> calls (snd (main argparse0 lib_absent [''md-to-docx'', ''doc/README.md''] world0)) = []
   \<and> stdout (snd (main argparse0 lib_absent [''md-to-docx'', ''doc/README.md''] world0)) = []"
  by code_simp


section \<open>Relocating an image that exists\<close>

text \<open>
  What a turn of the loop does for a picture that exists, when the destination is another
  entry than the picture. Take an image element with a non-empty source whose resolution
  against the directory of the input document is a regular file with bytes \<open>c\<close> and
  modification time \<open>m\<close>. If the creation of the directory of the reference under the
  output directory returns, and the destination path (the output directory joined with
  the source) then resolves to an entry \<open>q\<close> that is not a directory and is not the picture
  itself, the turn raises nothing, the \<open>src\<close> attribute becomes the source without its
  \<open>./\<close>, and afterwards the destination path is a regular file with the bytes \<open>c\<close> and the
  modification time \<open>m\<close>. (In this file system every file can be written; a destination
  that is read-only is outside the model.)
\<close>

lemma copy_images_step_copies:
  assumes src: "map_of img ''src'' = Some src0" and ne: "src0 \<noteq> []"
    and isfile: "stat w (path_join input_dir (image_src input_dir src0)) = Some (File c m)"
    and dirs: "fst (step_dirs input_dir output_dir src0 w) = Inr ()"
    and dest: "resolve (snd (step_dirs input_dir output_dir src0 w))
                 (path_join output_dir (image_src input_dir src0)) = Inr q"
    and nodir: "ents (snd (step_dirs input_dir output_dir src0 w)) q \<noteq> Some Dir"
    and other: "resolve w (path_join input_dir (image_src input_dir src0)) \<noteq> Inr q"
  shows "fst (copy_images_step input_dir output_dir img w)
           = Inr (AList.update ''src'' (image_src input_dir src0) img)
       \<and> stat (snd (copy_images_step input_dir output_dir img w))
           (path_join output_dir (image_src input_dir src0)) = Some (File c m)
       \<and> ents (snd (copy_images_step input_dir output_dir img w))
           = (ents (snd (step_dirs input_dir output_dir src0 w)))(q \<mapsto> File c m)"
proof -
  let ?src = "image_src input_dir src0"
  let ?img_path = "path_join input_dir ?src"
  let ?dst = "path_join output_dir ?src"
  let ?we = "w\<lparr>calls := calls w @ [Exists ?img_path]\<rparr>"
  define w1 where "w1 = snd (step_dirs input_dir output_dir src0 w)"
  let ?w2 = "w1\<lparr>calls := calls w1 @ [Copy2 ?img_path ?dst],
                 ents := (ents w1)(q \<mapsto> File c m), clock := Suc (clock w1)\<rparr>"
  from isfile obtain p where p: "resolve w ?img_path = Inr p" and fp: "ents w p = Some (File c m)"
    by (auto simp: stat_def split: sum.splits)
  have found: "os_path_exists ?img_path w = (Inr True, ?we)"
    using isfile by (simp add: os_path_exists_def io_bind_def io_log_def path_exists_def)
  have md: "mirror_dirs output_dir ?src ?we = (Inr (), w1)"
    using dirs by (simp add: w1_def step_dirs_def prod_eq_iff)
  have dest1: "resolve w1 ?dst = Inr q" using dest by (simp add: w1_def)
  have nodir1: "ents w1 q \<noteq> Some Dir" using nodir by (simp add: w1_def)
  have "extends ?we w1" unfolding w1_def step_dirs_def by (rule mirror_dirs_keeps)
  then have ext: "extends w w1" by (simp add: extends_def)
  have p1: "resolve w1 ?img_path = Inr p"
    using ext p by (rule resolve_extends)
  have fp1: "ents w1 p = Some (File c m)" using ext fp by (simp add: extends_def)
  have diff: "p \<noteq> q" using other p by simp
  have "copy2 ?img_path ?dst (w1\<lparr>calls := calls w1 @ [Copy2 ?img_path ?dst]\<rparr>) = (Inr (), ?w2)"
    using copy2_ok [where p = p and q = q and c = c and m = m and src = ?img_path and dst = ?dst
        and w = "w1\<lparr>calls := calls w1 @ [Copy2 ?img_path ?dst]\<rparr>"]
      p1 fp1 dest1 nodir1 diff
    by simp
  then have cp: "shutil_copy2 ?img_path ?dst w1 = (Inr (), ?w2)"
    by (simp add: shutil_copy2_def io_bind_def io_log_def)
  have step: "copy_images_step input_dir output_dir img w
                = (Inr (AList.update ''src'' ?src img), ?w2)"
    using src ne
    by (simp add: copy_images_step_def Let_def io_bind_def found md cp io_return_def)
  have "resolve ?w2 ?dst = Inr q"
    using dest1 nodir1 by (rule resolve_ents_upd) simp_all
  then have "stat ?w2 ?dst = Some (File c m)" by (simp add: stat_def)
  with step show ?thesis by (simp add: w1_def)
qed


text \<open>
  Where the destination path is a directory, \<^verbatim>\<open>shutil.copy2\<close> puts the file inside it, under
  the base name of the source: \<^verbatim>\<open>copy_images\<close> returns, the reference is rewritten to
  \<open>img/pic.png\<close>, but \<open>/w/out/img/pic.png\<close> is a directory and the copy lies at
  \<open>/w/out/img/pic.png/pic.png\<close>.
\<close>

lemma copy_images_step_into_directory:
  \<open>stat world1 ''/w/doc/img/pic.png'' = Some (File ''PNG'' 7)
   \<and> fst (copy_images lib0 ''<img src="./img/pic.png"/>'' ''doc/page.html'' ''/w/out'' False world1)
       = Inr ''<img src="img/pic.png"/>''
   \<and> stat (snd (copy_images lib0 ''<img src="./img/pic.png"/>'' ''doc/page.html'' ''/w/out'' False
         world1)) ''/w/out/img/pic.png'' = Some Dir
   \<and> stat (snd (copy_images lib0 ''<img src="./img/pic.png"/>'' ''doc/page.html'' ''/w/out'' False
         world1)) ''/w/out/img/pic.png/pic.png'' = Some (File ''PNG'' 7)\<close>
  by code_simp

text \<open>
  Where the output directory is the directory of the document, the destination of every
  picture is the picture itself. No turn of the loop for a picture that exists then
  returns: \<^verbatim>\<open>shutil.copy2\<close> refuses to copy a file onto itself (if the directory creation
  before it has not raised already).
\<close>

lemma copy_images_step_same_directory_raises:
  assumes src: "map_of img ''src'' = Some src0" and ne: "src0 \<noteq> []"
    and ex: "path_exists w (path_join dir (image_src dir src0))"
  shows "\<exists>e. fst (copy_images_step dir dir img w) = Inl e"
proof -
  let ?src = "image_src dir src0"
  let ?p = "path_join dir ?src"
  let ?we = "w\<lparr>calls := calls w @ [Exists ?p]\<rparr>"
  have found: "os_path_exists ?p w = (Inr True, ?we)"
    using ex by (simp add: os_path_exists_def io_bind_def io_log_def)
  obtain r w1 where md: "mirror_dirs dir ?src ?we = (r, w1)"
    by (cases "mirror_dirs dir ?src ?we")
  obtain e where "fst (copy2 ?p ?p (w1\<lparr>calls := calls w1 @ [Copy2 ?p ?p]\<rparr>)) = Inl e"
    using copy2_same_raises by blast
  then have "fst (shutil_copy2 ?p ?p w1) = Inl e"
    by (simp add: shutil_copy2_def io_bind_def io_log_def)
  then show ?thesis
    using src ne
    by (auto simp: copy_images_step_def Let_def io_bind_def found md
        split: prod.splits sum.splits)
qed

text \<open>
  Claim C3 is what the code attempts and misses where the tool is run beside the
  document. Without \<^verbatim>\<open>--output\<close>
  the output file is \<open>output.pdf\<close> in the working directory, so for a document of the working
  directory the output directory is the directory of the document. The page
  \<open>/w/doc/page.html\<close> refers to \<open>./img/pic.png\<close>, which exists. \<^verbatim>\<open>copy_images\<close> with the output
  directory \<open>/w/doc\<close> creates nothing, asks \<^verbatim>\<open>shutil.copy2\<close> to copy the picture onto itself
  and ends with \<^verbatim>\<open>SameFileError\<close>: no result is returned and the reference is not
  rewritten. The run \<^verbatim>\<open>md2pdf.py html-to-pdf page.html\<close> in \<open>/w/doc\<close> reaches exactly that call
  and ends with the exception; no PDF is written.
\<close>

theorem copy_images_same_directory:
  \<open>stat world0 ''/w/doc/img/pic.png'' = Some (File ''PNG'' 7)
   \<and> fst (copy_images lib0 ''<img src="./img/pic.png"/>'' ''doc/page.html'' ''/w/doc'' False world0)
       = Inl SameFileError
   \<and> calls (snd (copy_images lib0 ''<img src="./img/pic.png"/>'' ''doc/page.html'' ''/w/doc'' False
         world0))
       = [Makedirs ''/w/doc'', Exists ''/w/doc/img/pic.png'', Makedirs ''/w/doc/img'',
          Copy2 ''/w/doc/img/pic.png'' ''/w/doc/img/pic.png'']
   \<and> argparse0 [''html-to-pdf'', ''page.html''] = Parsed args2
   \<and> main_output_dir HtmlToPdf args2 world_doc = ''/w/doc''
   \<and> fst (main argparse0 lib0 [''html-to-pdf'', ''page.html''] world_doc) = Inl SameFileError
   \<and> calls (snd (main argparse0 lib0 [''html-to-pdf'', ''page.html''] world_doc))
       = [Wkhtmltopdf ''test.pdf'', OpenRead ''page.html'', Makedirs ''/w/doc'',
          Exists ''/w/doc/img/pic.png'', Makedirs ''/w/doc/img'',
          Copy2 ''/w/doc/img/pic.png'' ''/w/doc/img/pic.png'']
   \<and> \<not> path_exists (snd (main argparse0 lib0 [''html-to-pdf'', ''page.html''] world_doc))
         ''output.pdf''\<close>
  by code_simp


section \<open>References to the parent directory\<close>

text \<open>
  Claim C1 is what the code attempts and misses. For a source that begins with \<open>../\<close>,
  \<^verbatim>\<open>src\<close> becomes the normalised absolute path of the picture; joined to the output
  directory it is that same absolute path, so \<^verbatim>\<open>shutil.copy2\<close> is asked to copy the picture
  onto itself and raises \<^verbatim>\<open>SameFileError\<close>. In the example the document \<open>/w/doc/README.md\<close>
  refers to \<open>../pic.png\<close>, which exists at \<open>/w/pic.png\<close>, and the output directory is
  \<open>/w/out\<close>: the run ends with the exception, nothing is copied into \<open>/w/out\<close>, and the
  directory made for the picture is \<open>/w\<close>, not one under \<open>/w/out\<close>. Lemma
  \<open>copy_images_step_parent_raises\<close> shows the same for every such reference: whenever its
  source exists, the turn of the loop ends in an exception.
\<close>

theorem copy_images_parent_reference:
  \<open>stat world0 ''/w/pic.png'' = Some (File ''TOP'' 3)
   \<and> fst (copy_images lib0 ''<img src="../pic.png"/>'' ''doc/README.md'' ''/w/out'' False world0)
       = Inl SameFileError
   \<and> calls (snd (copy_images lib0 ''<img src="../pic.png"/>'' ''doc/README.md'' ''/w/out'' False
         world0))
       = [Makedirs ''/w/out'', Exists ''/w/pic.png'', Makedirs ''/w'',
          Copy2 ''/w/pic.png'' ''/w/pic.png'']
   \<and> stat (snd (copy_images lib0 ''<img src="../pic.png"/>'' ''doc/README.md'' ''/w/out'' False
         world0)) ''/w/out/pic.png'' = None\<close>
  by code_simp


section \<open>The output directory\<close>



lemma os_makedirs_dot_returns:
  "fst (os_makedirs ''/w/sub/../pic.png/.'' world0) = Inr ()
   \<and> path_isdir (snd (os_makedirs ''/w/sub/../pic.png/.'' world0)) ''/w/sub''
   \<and> \<not> path_isdir (snd (os_makedirs ''/w/sub/../pic.png/.'' world0)) ''/w/sub/../pic.png/.''"
  by code_simp



text \<open>
  A whole run: \<^verbatim>\<open>md2pdf.py md-to-html doc/README.md -o out/pdf/page.html\<close> in \<open>/w\<close>, where neither
  \<open>/w/out\<close> nor \<open>/w/out/pdf\<close> exists. The page holds no \<open>img\<close> element for the parser of the
  examples; the run creates the two directories and writes the page into the second.
\<close>

lemma main_creates_output_dir:
  "argparse0 [''md-to-html'', ''doc/README.md'', ''-o'', ''out/pdf/page.html''] = Parsed args3
   \<and> \<not> no_images args3
   \<and> \<not> path_exists world0 ''/w/out''
   \<and> fst (main argparse0 lib0 [''md-to-html'', ''doc/README.md'', ''-o'', ''out/pdf/page.html'']
         world0) = Inr ()
   \<and> calls (snd (main argparse0 lib0 [''md-to-html'', ''doc/README.md'', ''-o'',
         ''out/pdf/page.html''] world0))
       = [Wkhtmltopdf ''test.pdf'', OpenRead ''doc/README.md'', Makedirs ''/w/out/pdf'',
          OpenWrite ''out/pdf/page.html'']
   \<and> path_isdir (snd (main argparse0 lib0 [''md-to-html'', ''doc/README.md'', ''-o'',
         ''out/pdf/page.html''] world0)) ''/w/out/pdf''
   \<and> path_isfile (snd (main argparse0 lib0 [''md-to-html'', ''doc/README.md'', ''-o'',
         ''out/pdf/page.html''] world0)) ''/w/out/pdf/page.html''"
  by code_simp


section \<open>The temporary file\<close>

text \<open>
  Claim C2, as the code has it. A run of \<^verbatim>\<open>md-to-pdf\<close> or \<^verbatim>\<open>html-to-pdf\<close> that returns without
  an exception has removed \<open>temp.html\<close>: the file does not exist in the working directory
  when the run ends. (The removal is the last statement of the two branches and is not
  protected by a \<^verbatim>\<open>finally\<close>: see the counterexample.)
\<close>

theorem main_removes_temp_html:
  "argparse argv = Parsed a \<Longrightarrow> command a \<noteq> Some MdToHtml \<Longrightarrow>
   fst (main argparse lib argv w) = Inr () \<Longrightarrow>
   \<not> path_exists (snd (main argparse lib argv w)) ''temp.html''"
proof -
  assume p: "argparse argv = Parsed a" and c: "command a \<noteq> Some MdToHtml"
    and ok: "fst (main argparse lib argv w) = Inr ()"
  then have "main argparse lib argv w = (Inr (), snd (main argparse lib argv w))"
    by (simp add: prod_eq_iff)
  then have "io_bind (probe lib) (\<lambda>_. dispatch lib a) w
      = (Inr (), snd (main argparse lib argv w))"
    using p by (simp add: main_def parse_arguments_def io_return_def io_bind_def)
  then obtain w0 where d: "dispatch lib a w0 = (Inr (), snd (main argparse lib argv w))"
    by (auto simp: io_bind_Inr)
  obtain w2 where "os_remove ''temp.html'' w2 = (Inr (), snd (main argparse lib argv w))"
  proof (cases "command a")
    case None
    with d show ?thesis by (simp add: dispatch_def)
  next
    case (Some sc)
    with c d that show ?thesis
      by (cases sc) (auto simp: dispatch_def Let_def io_bind_Inr)
  qed
  then show ?thesis by (rule os_remove_gone)
qed

theorem main_removes_temp_html_witness:
  "fst (main argparse0 lib0 [''html-to-pdf'', ''doc/README.md'', ''--no-images''] world0) = Inr ()
   \<and> path_isfile (snd (main argparse0 lib0 [''html-to-pdf'', ''doc/README.md'', ''--no-images'']
         world0)) ''output.pdf''
   \<and> \<not> path_exists (snd (main argparse0 lib0 [''html-to-pdf'', ''doc/README.md'', ''--no-images'']
         world0)) ''temp.html''"
proof -
  have p: "argparse0 [''html-to-pdf'', ''doc/README.md'', ''--no-images''] = Parsed args0"
    by (simp add: argparse0_def)
  have c: "command args0 \<noteq> Some MdToHtml" by (simp add: args0_def)
  have ok: "fst (main argparse0 lib0 [''html-to-pdf'', ''doc/README.md'', ''--no-images''] world0)
      = Inr ()"
    by code_simp
  have out: "path_isfile (snd (main argparse0 lib0 [''html-to-pdf'', ''doc/README.md'',
      ''--no-images''] world0)) ''output.pdf''"
    by code_simp
  show ?thesis
    using main_removes_temp_html [where argparse = argparse0 and a = args0 and lib = lib0
        and argv = "[''html-to-pdf'', ''doc/README.md'', ''--no-images'']" and w = world0]
      p c ok out
    by simp
qed

text \<open>
  When the renderer fails on the document, \<^verbatim>\<open>pdfkit.from_file\<close> raises, the exception
  leaves \<^verbatim>\<open>main\<close> before \<^verbatim>\<open>os.remove\<close> is reached, and \<open>temp.html\<close> stays in the working
  directory: the claim as the specification states it ("whether the render succeeds or
  fails") does not hold.
\<close>

theorem main_render_fails_counterexample:
  "argparse0 [''html-to-pdf'', ''doc/README.md'', ''--no-images''] = Parsed args0
   \<and> command args0 = Some HtmlToPdf
   \<and> fst (main argparse0 lib_failing [''html-to-pdf'', ''doc/README.md'', ''--no-images''] world0)
       = Inl IOError
   \<and> path_exists (snd (main argparse0 lib_failing [''html-to-pdf'', ''doc/README.md'',
         ''--no-images''] world0)) ''temp.html''"
  by code_simp


section \<open>The file the probe leaves behind\<close>

text \<open>
  A command line without a subcommand is accepted by \<^verbatim>\<open>argparse\<close>: the probe is made and
  writes its file, and then line 261 raises, for the namespace has no attribute
  \<^verbatim>\<open>output\<close>.
\<close>

lemma main_no_subcommand:
  "argparse0 [] = Parsed args_none
   \<and> command args_none = None
   \<and> fst (main argparse0 lib0 [] world0) = Inl AttributeError
   \<and> calls (snd (main argparse0 lib0 [] world0)) = [Wkhtmltopdf ''test.pdf'']
   \<and> path_isfile (snd (main argparse0 lib0 [] world0)) ''test.pdf''"
  by code_simp

text \<open>
  Claim C8, as the code has it. The probe asks the renderer to write \<open>test.pdf\<close> in the
  working directory. For every command line that \<^verbatim>\<open>argparse\<close> accepts, whenever the probe call
  returns without an exception (by lemma \<open>probe_succeeds_iff\<close>: the binary is installed, it
  renders the empty document, and \<open>test.pdf\<close> can be written in the working directory),
  \<open>test.pdf\<close> is a regular file of the working directory after the probe, and it still is
  one when \<^verbatim>\<open>main\<close> ends, for every subcommand and every option, and whether the rest of
  the run returns or raises: the one file the program removes is \<open>temp.html\<close>.
\<close>

theorem main_keeps_test_pdf:
  "argparse argv = Parsed a \<Longrightarrow> fst (probe lib w) = Inr () \<Longrightarrow>
   path_isfile (snd (probe lib w)) ''test.pdf''
   \<and> path_isfile (snd (main argparse lib argv w)) ''test.pdf''"
proof -
  assume parsed: "argparse argv = Parsed a" and ok: "fst (probe lib w) = Inr ()"
  then obtain w0 where p: "probe lib w = (Inr (), w0)" by (cases "probe lib w") auto
  have after: "path_isfile (snd (probe lib w)) ''test.pdf''"
    using ok by (rule probe_writes_test_pdf)
  then have "path_isfile w0 ''test.pdf''" by (simp add: p)
  then have "path_isfile (snd (dispatch lib a w0)) ''test.pdf''"
    using dispatch_keeps_test_pdf by (simp add: keeps_def)
  moreover have "main argparse lib argv w = dispatch lib a w0"
    by (simp add: main_def parse_arguments_def parsed io_return_def io_bind_def p)
  ultimately show ?thesis using after by simp
qed

theorem main_keeps_test_pdf_witness:
  "command args1 = Some MdToHtml
   \<and> \<not> path_exists world0 ''test.pdf''
   \<and> fst (main argparse0 lib0 [''md-to-html'', ''doc/README.md'', ''--no-images''] world0) = Inr ()
   \<and> path_isfile (snd (main argparse0 lib0 [''md-to-html'', ''doc/README.md'', ''--no-images'']
         world0)) ''test.pdf''"
proof -
  have parsed: "argparse0 [''md-to-html'', ''doc/README.md'', ''--no-images''] = Parsed args1"
    by (simp add: argparse0_def)
  have c: "command args1 = Some MdToHtml" by (simp add: args1_def)
  have absent: "\<not> path_exists world0 ''test.pdf''" by code_simp
  have ok: "fst (probe lib0 world0) = Inr ()" by code_simp
  have run: "fst (main argparse0 lib0 [''md-to-html'', ''doc/README.md'', ''--no-images''] world0)
      = Inr ()"
    by code_simp
  show ?thesis
    using main_keeps_test_pdf [where argparse = argparse0 and a = args1 and lib = lib0
        and argv = "[''md-to-html'', ''doc/README.md'', ''--no-images'']" and w = world0]
      parsed ok c absent run
    by simp
qed

text \<open>
  The claim as the specification states it does not hold. An installed renderer that
  renders the empty document is not enough: where \<open>test.pdf\<close> cannot be written (here it is
  a directory of the working directory), the probe raises, the program reports that
  \<^verbatim>\<open>wkhtmltopdf\<close> is not installed and exits with status 1, and no file \<open>test.pdf\<close> has been
  written. And a run that \<^verbatim>\<open>argparse\<close> ends (\<^verbatim>\<open>--help\<close>) makes no probe and writes no file.
\<close>

theorem main_probe_blocked_counterexample:
  "wk_installed lib0
   \<and> wk_render lib0 (ents world_blocked) [] [] = Some ''%PDF''
   \<and> fst (main argparse0 lib0 [''md-to-html'', ''doc/README.md'', ''--no-images''] world_blocked)
       = Inl (SystemExit 1)
   \<and> \<not> path_isfile (snd (main argparse0 lib0 [''md-to-html'', ''doc/README.md'', ''--no-images'']
         world_blocked)) ''test.pdf''
   \<and> fst (main argparse0 lib0 [''--help''] world0) = Inl (SystemExit 0)
   \<and> \<not> path_exists (snd (main argparse0 lib0 [''--help''] world0)) ''test.pdf''"
  by code_simp


end
